theory Spec2Isabelle
  imports Complex_Main
begin

section \<open>Tensors\<close>

text \<open>
  The decoder of \<^verbatim>\<open>layers/tacotron2.py\<close> computes on torch tensors. A tensor is
  modelled as the runtime stores a contiguous one: its shape and its elements in
  row-major order. Every exception the tensor runtime raises for a shape the code
  did not expect is a value of \<open>error\<close>.
\<close>

datatype error = RuntimeError | IndexError | AttributeError | TypeError | ZeroDivisionError

record 'a tensor =
  shape :: "nat list"
  elems :: "'a list"

definition ebind :: "'e + 'a \<Rightarrow> ('a \<Rightarrow> 'e + 'b) \<Rightarrow> 'e + 'b" where
  "ebind m f = (case m of Inl e \<Rightarrow> Inl e | Inr x \<Rightarrow> f x)"

text \<open>\<open>chunks n k xs\<close> cuts the first \<open>n * k\<close> elements of \<open>xs\<close> into \<open>n\<close> rows of width \<open>k\<close>.\<close>

definition chunks :: "nat \<Rightarrow> nat \<Rightarrow> 'a list \<Rightarrow> 'a list list" where
  "chunks n k xs = map (\<lambda>i. take k (drop (i * k) xs)) [0..<n]"

text \<open>A dimension argument counts from the end when negative; out of range raises IndexError.\<close>

definition norm_dim :: "nat \<Rightarrow> int \<Rightarrow> error + nat" where
  "norm_dim rank i =
     (let j = (if i < 0 then int rank + i else i)
      in if 0 \<le> j \<and> j < int rank then Inr (nat j) else Inl IndexError)"

text \<open>\<^verbatim>\<open>t.size(i)\<close> and \<^verbatim>\<open>t.shape[i]\<close>.\<close>

definition tsize :: "'a tensor \<Rightarrow> int \<Rightarrow> error + nat" where
  "tsize t i = ebind (norm_dim (length (shape t)) i) (\<lambda>j. Inr (shape t ! j))"

text \<open>\<^verbatim>\<open>torch.zeros(1, device=...).repeat(b, n)\<close>: a \<open>b \<times> n\<close> tensor of zeros.\<close>

definition zeros_repeat :: "int \<Rightarrow> int \<Rightarrow> error + real tensor" where
  "zeros_repeat b n =
     (if b < 0 \<or> n < 0 then Inl RuntimeError
      else Inr \<lparr>shape = [nat b, nat n], elems = replicate (nat b * nat n) 0\<rparr>)"

text \<open>\<^verbatim>\<open>t.view(dims)\<close>, at most one entry \<open>-1\<close>, which is inferred.\<close>

definition view :: "'a tensor \<Rightarrow> int list \<Rightarrow> error + 'a tensor" where
  "view t dims =
     (let n = prod_list (shape t);
          known = filter (\<lambda>d. d \<noteq> - 1) dims;
          k = nat (prod_list known)
      in if (\<exists>d \<in> set dims. d < - 1) \<or> length known + 1 < length dims then Inl RuntimeError
         else if length known = length dims
           then (if k = n then Inr (t\<lparr>shape := map nat dims\<rparr>) else Inl RuntimeError)
         else if k = 0 \<or> n mod k \<noteq> 0 then Inl RuntimeError
         else Inr (t\<lparr>shape := map (\<lambda>d. if d = - 1 then n div k else nat d) dims\<rparr>))"

text \<open>
  \<open>swap_block a b k xs\<close> reads \<open>xs\<close> as an \<open>a \<times> b\<close> matrix of cells of width \<open>k\<close>
  and writes the \<open>b \<times> a\<close> matrix with rows and columns exchanged.
\<close>

definition swap_block :: "nat \<Rightarrow> nat \<Rightarrow> nat \<Rightarrow> 'a list \<Rightarrow> 'a list" where
  "swap_block a b k xs =
     concat (map (\<lambda>j. concat (map (\<lambda>i. take k (drop ((i * b + j) * k) xs)) [0..<a])) [0..<b])"

text \<open>\<^verbatim>\<open>t.transpose(0, 1)\<close> (followed by \<^verbatim>\<open>contiguous()\<close>, which changes no value).\<close>

definition transpose01 :: "'a tensor \<Rightarrow> error + 'a tensor" where
  "transpose01 t =
     (case shape t of
        a # b # rest \<Rightarrow>
          Inr \<lparr>shape = b # a # rest, elems = swap_block a b (prod_list rest) (elems t)\<rparr>
      | _ \<Rightarrow> Inl IndexError)"

text \<open>\<^verbatim>\<open>t.transpose(1, 2)\<close>.\<close>

definition transpose12 :: "'a tensor \<Rightarrow> error + 'a tensor" where
  "transpose12 t =
     (case shape t of
        a # b # c # rest \<Rightarrow>
          Inr \<lparr>shape = a # c # b # rest,
               elems = concat (map (swap_block b c (prod_list rest))
                                   (chunks a (b * c * prod_list rest) (elems t)))\<rparr>
      | _ \<Rightarrow> Inl IndexError)"

text \<open>\<^verbatim>\<open>torch.stack(ts)\<close>: a new leading axis; the list is not empty and the shapes agree.\<close>

definition stack :: "'a tensor list \<Rightarrow> error + 'a tensor" where
  "stack ts =
     (case ts of
        [] \<Rightarrow> Inl RuntimeError
      | t # rest \<Rightarrow>
          if \<forall>u \<in> set rest. shape u = shape t
          then Inr \<lparr>shape = length ts # shape t, elems = concat (map elems ts)\<rparr>
          else Inl RuntimeError)"

text \<open>\<^verbatim>\<open>torch.cat((a, b), dim)\<close>: the shapes agree except along the axis.\<close>

definition cat :: "'a tensor \<Rightarrow> 'a tensor \<Rightarrow> int \<Rightarrow> error + 'a tensor" where
  "cat a b axis =
     ebind (norm_dim (length (shape a)) axis) (\<lambda>i.
       if length (shape b) \<noteq> length (shape a)
          \<or> take i (shape a) \<noteq> take i (shape b)
          \<or> drop (Suc i) (shape a) \<noteq> drop (Suc i) (shape b)
       then Inl RuntimeError
       else Inr \<lparr>shape = (shape a)[i := shape a ! i + shape b ! i],
                 elems = concat (map2 (@)
                   (chunks (prod_list (take i (shape a))) (prod_list (drop i (shape a))) (elems a))
                   (chunks (prod_list (take i (shape a))) (prod_list (drop i (shape b))) (elems b)))\<rparr>)"

text \<open>
  A Python slice \<^verbatim>\<open>[start:stop]\<close> on an axis of length \<open>n\<close>: a negative bound counts
  from the end, and both bounds are clipped to the axis.
\<close>

definition slice_bound :: "nat \<Rightarrow> int \<Rightarrow> nat" where
  "slice_bound n i = (if i < 0 then nat (int n + i) else min n (nat i))"

definition slice_range :: "nat \<Rightarrow> int option \<Rightarrow> int option \<Rightarrow> nat \<times> nat" where
  "slice_range n start stop =
     ((case start of None \<Rightarrow> 0 | Some i \<Rightarrow> slice_bound n i),
      (case stop of None \<Rightarrow> n | Some i \<Rightarrow> slice_bound n i))"

text \<open>
  \<^verbatim>\<open>t[:, start:stop]\<close> is \<open>slice_axis t 1 start stop\<close> and \<^verbatim>\<open>t[:, :, start:stop]\<close> is
  \<open>slice_axis t 2 start stop\<close>; indexing more axes than the tensor has raises IndexError.
\<close>

definition slice_axis :: "'a tensor \<Rightarrow> nat \<Rightarrow> int option \<Rightarrow> int option \<Rightarrow> error + 'a tensor" where
  "slice_axis t i start stop =
     (if length (shape t) \<le> i then Inl IndexError
      else
        let n = shape t ! i;
            lo = fst (slice_range n start stop);
            hi = snd (slice_range n start stop);
            inner = prod_list (drop (Suc i) (shape t));
            outer = prod_list (take i (shape t))
        in Inr \<lparr>shape = (shape t)[i := hi - lo],
                elems = concat (map (\<lambda>blk. take ((hi - lo) * inner) (drop (lo * inner) blk))
                                    (chunks outer (n * inner) (elems t)))\<rparr>)"

text \<open>\<^verbatim>\<open>t[i]\<close> for a list length \<open>i\<close>.\<close>

definition index0 :: "'a tensor \<Rightarrow> nat \<Rightarrow> error + 'a tensor" where
  "index0 t i =
     (case shape t of
        [] \<Rightarrow> Inl IndexError
      | n # rest \<Rightarrow>
          if i < n
          then Inr \<lparr>shape = rest,
                    elems = take (prod_list rest) (drop (i * prod_list rest) (elems t))\<rparr>
          else Inl IndexError)"

text \<open>\<^verbatim>\<open>t.squeeze(1)\<close> removes axis 1 when its size is 1; \<^verbatim>\<open>t.unsqueeze(0)\<close> adds a leading axis.\<close>

definition squeeze1 :: "'a tensor \<Rightarrow> error + 'a tensor" where
  "squeeze1 t =
     (case shape t of
        a # b # rest \<Rightarrow> Inr (if b = 1 then t\<lparr>shape := a # rest\<rparr> else t)
      | _ \<Rightarrow> Inl IndexError)"

definition unsqueeze0 :: "'a tensor \<Rightarrow> 'a tensor" where
  "unsqueeze0 t = t\<lparr>shape := 1 # shape t\<rparr>"

text \<open>\<^verbatim>\<open>torch.sigmoid\<close>, \<^verbatim>\<open>t > c\<close> and the truth value of a tensor, which only a one-element tensor has.\<close>

definition sigmoid :: "real \<Rightarrow> real" where
  "sigmoid x = 1 / (1 + exp (- x))"

definition tsigmoid :: "real tensor \<Rightarrow> real tensor" where
  "tsigmoid t = t\<lparr>elems := map sigmoid (elems t)\<rparr>"

definition tensor_gt :: "real tensor \<Rightarrow> real \<Rightarrow> bool tensor" where
  "tensor_gt t c = \<lparr>shape = shape t, elems = map (\<lambda>x. c < x) (elems t)\<rparr>"

definition tensor_bool :: "bool tensor \<Rightarrow> error + bool" where
  "tensor_bool t = (case elems t of [b] \<Rightarrow> Inr b | _ \<Rightarrow> Inl RuntimeError)"


definition detach :: "'a tensor \<Rightarrow> 'a tensor" where
  "detach t = t"

definition attr :: "'a option \<Rightarrow> error + 'a" where
  "attr v = (case v of None \<Rightarrow> Inl AttributeError | Some x \<Rightarrow> Inr x)"

section \<open>The decoder object\<close>

text \<open>
  The layers the decoder owns are built by classes of \<^verbatim>\<open>common_layers\<close> and of the tensor
  library. Each is recorded by the arguments of its constructor call; an argument a call
  leaves to its default is \<open>None\<close>.
\<close>

record Linear =
  in_features :: int
  out_features :: int
  bias :: "bool option"
  init_gain :: "string option"

record LSTMCell =
  input_size :: int
  hidden_size :: int
  cell_bias :: bool

record Prenet =
  prenet_in_features :: int
  prenet_type :: string
  prenet_dropout :: bool
  prenet_out_features :: "int list"
  prenet_bias :: bool

record Attention =
  attn_type :: string
  attn_query_dim :: int
  embedding_dim :: int
  attention_dim :: int
  location_attention :: bool
  attention_location_n_filters :: int
  attention_location_kernel_size :: int
  windowing :: bool
  attn_norm :: string
  forward_attn :: bool
  trans_agent :: bool
  forward_attn_mask :: bool
  attn_K :: int

text \<open>
  The fields of a \<^verbatim>\<open>Decoder\<close>. The fields from \<open>query\<close> to \<open>mask\<close> are assigned outside
  \<^verbatim>\<open>__init__\<close>: they are \<open>None\<close> until \<^verbatim>\<open>_init_states\<close> has run, and reading one before
  raises AttributeError (\<open>context_vec\<close> is the source's \<^verbatim>\<open>context\<close>).
  \<open>stopnet\<close> is the pair of the dropout probability and the linear layer of \<^verbatim>\<open>nn.Sequential(nn.Dropout(0.1), Linear(...))\<close>. \<open>training\<close> is the mode flag of
  \<^verbatim>\<open>nn.Module\<close>. Two more fields carry what the methods change outside the object:
  \<open>world\<close> is the state of the random generator and of the attention module, opaque here,
  and \<open>stdout\<close> is what has been printed.
\<close>

record 'w decoder =
  frame_dim :: int
  r_init :: int
  r :: int
  encoder_embedding_dim :: int
  separate_stopnet :: bool
  max_decoder_steps :: int
  gate_threshold :: real
  query_dim :: int
  decoder_rnn_dim :: int
  prenet_dim :: int
  attn_dim :: int
  p_attention_dropout :: real
  p_decoder_dropout :: real
  prenet :: Prenet
  attention_rnn :: LSTMCell
  attention :: Attention
  decoder_rnn :: LSTMCell
  linear_projection :: Linear
  stopnet :: "real \<times> Linear"
  memory_truncated :: "real tensor option"
  training :: bool
  query :: "real tensor option"
  attention_rnn_cell_state :: "real tensor option"
  decoder_hidden :: "real tensor option"
  decoder_cell :: "real tensor option"
  context_vec :: "real tensor option"
  inputs :: "real tensor option"
  processed_inputs :: "real tensor option"
  mask :: "bool tensor option option"
  world :: 'w
  stdout :: "string list"

text \<open>
  What the layers compute is not part of this file: the prenet, the two recurrent cells,
  the attention module, the linear layers and dropout are parameters. A call can raise,
  and the calls that draw random numbers or change the attention module take and return
  the \<open>world\<close>.
\<close>

record 'w caps =
  prenet_fwd :: "Prenet \<Rightarrow> bool \<Rightarrow> 'w \<Rightarrow> real tensor \<Rightarrow> error + (real tensor \<times> 'w)"
  lstm_fwd :: "LSTMCell \<Rightarrow> real tensor \<Rightarrow> real tensor \<times> real tensor
                 \<Rightarrow> error + (real tensor \<times> real tensor)"
  dropout_fwd :: "real \<Rightarrow> bool \<Rightarrow> 'w \<Rightarrow> real tensor \<Rightarrow> error + (real tensor \<times> 'w)"
  linear_fwd :: "Linear \<Rightarrow> real tensor \<Rightarrow> error + real tensor"
  attn_preprocess_inputs :: "Attention \<Rightarrow> 'w \<Rightarrow> real tensor \<Rightarrow> error + (real tensor \<times> 'w)"
  attn_init_states :: "Attention \<Rightarrow> 'w \<Rightarrow> real tensor \<Rightarrow> error + 'w"
  attn_init_win_idx :: "Attention \<Rightarrow> 'w \<Rightarrow> error + 'w"
  attn_fwd :: "Attention \<Rightarrow> bool \<Rightarrow> 'w \<Rightarrow> real tensor \<Rightarrow> real tensor \<Rightarrow> real tensor
                 \<Rightarrow> bool tensor option \<Rightarrow> error + (real tensor \<times> 'w)"
  attn_attention_weights :: "'w \<Rightarrow> error + real tensor"

text \<open>\<^verbatim>\<open>Decoder.__init__\<close>; \<open>w\<close> is the world the object is created in.\<close>

definition Decoder_init ::
  "'w \<Rightarrow> int \<Rightarrow> int \<Rightarrow> int \<Rightarrow> string \<Rightarrow> bool \<Rightarrow> string \<Rightarrow> string \<Rightarrow> bool \<Rightarrow> bool \<Rightarrow> bool
     \<Rightarrow> bool \<Rightarrow> bool \<Rightarrow> int \<Rightarrow> bool \<Rightarrow> int \<Rightarrow> 'w decoder" where
  "Decoder_init w input_dim frame_dim0 r0 attn_type0 attn_win attn_norm0 prenet_type0
       prenet_dropout0 forward_attn0 trans_agent0 forward_attn_mask0 location_attn attn_K0
       separate_stopnet0 speaker_embedding_dim =
     \<lparr>frame_dim = frame_dim0,
      r_init = r0,
      r = r0,
      encoder_embedding_dim = input_dim,
      separate_stopnet = separate_stopnet0,
      max_decoder_steps = 1000000,
      gate_threshold = 0.5,
      query_dim = 1024,
      decoder_rnn_dim = 1024,
      prenet_dim = 256,
      attn_dim = 128,
      p_attention_dropout = 0.1,
      p_decoder_dropout = 0.1,
      prenet = \<lparr>prenet_in_features = frame_dim0, prenet_type = prenet_type0,
                 prenet_dropout = prenet_dropout0, prenet_out_features = [256, 256],
                 prenet_bias = False\<rparr>,
      attention_rnn = \<lparr>input_size = 256 + input_dim, hidden_size = 1024, cell_bias = True\<rparr>,
      attention = \<lparr>attn_type = attn_type0, attn_query_dim = 1024, embedding_dim = input_dim,
                    attention_dim = 128, location_attention = location_attn,
                    attention_location_n_filters = 32, attention_location_kernel_size = 31,
                    windowing = attn_win, attn_norm = attn_norm0, forward_attn = forward_attn0,
                    trans_agent = trans_agent0, forward_attn_mask = forward_attn_mask0,
                    attn_K = attn_K0\<rparr>,
      decoder_rnn = \<lparr>input_size = 1024 + input_dim, hidden_size = 1024, cell_bias = True\<rparr>,
      linear_projection = \<lparr>in_features = 1024 + input_dim, out_features = frame_dim0 * r0,
                            bias = None, init_gain = None\<rparr>,
      stopnet = (0.1, \<lparr>in_features = 1024 + frame_dim0 * r0, out_features = 1,
                        bias = Some True, init_gain = Some ''sigmoid''\<rparr>),
      memory_truncated = None,
      training = True,
      query = None,
      attention_rnn_cell_state = None,
      decoder_hidden = None,
      decoder_cell = None,
      context_vec = None,
      inputs = None,
      processed_inputs = None,
      mask = None,
      world = w,
      stdout = []\<rparr>"

definition set_r :: "'w decoder \<Rightarrow> int \<Rightarrow> 'w decoder" where
  "set_r d new_r = d\<lparr>r := new_r\<rparr>"

definition get_go_frame :: "'w decoder \<Rightarrow> real tensor \<Rightarrow> error + real tensor" where
  "get_go_frame d inputs0 =
     ebind (tsize inputs0 0) (\<lambda>B. zeros_repeat (int B) (frame_dim d * r d))"

definition init_states ::
  "'w caps \<Rightarrow> 'w decoder \<Rightarrow> real tensor \<Rightarrow> bool tensor option \<Rightarrow> bool \<Rightarrow> error + 'w decoder" where
  "init_states caps d inputs0 mask0 keep_states =
     ebind (tsize inputs0 0) (\<lambda>B.
     ebind (if \<not> keep_states then
              ebind (zeros_repeat (int B) (query_dim d)) (\<lambda>q.
              ebind (zeros_repeat (int B) (query_dim d)) (\<lambda>c.
              ebind (zeros_repeat (int B) (decoder_rnn_dim d)) (\<lambda>h.
              ebind (zeros_repeat (int B) (decoder_rnn_dim d)) (\<lambda>dc.
              ebind (zeros_repeat (int B) (encoder_embedding_dim d)) (\<lambda>ctx.
              Inr (d\<lparr>query := Some q, attention_rnn_cell_state := Some c,
                      decoder_hidden := Some h, decoder_cell := Some dc,
                      context_vec := Some ctx\<rparr>))))))
            else Inr d) (\<lambda>d1.
     ebind (attn_preprocess_inputs caps (attention d1) (world d1) inputs0) (\<lambda>(p, w).
     Inr (d1\<lparr>inputs := Some inputs0, processed_inputs := Some p, mask := Some mask0,
              world := w\<rparr>))))"

definition reshape_memory :: "'w decoder \<Rightarrow> real tensor \<Rightarrow> error + real tensor" where
  "reshape_memory d memory =
     ebind (tsize memory (- 1)) (\<lambda>last_size.
     ebind (if int last_size = frame_dim d then
              ebind (tsize memory 0) (\<lambda>s0.
              ebind (tsize memory 1) (\<lambda>s1.
                if r d = 0 then Inl ZeroDivisionError
                else view memory [int s0, int s1 div r d, - 1]))
            else Inr memory) (\<lambda>memory1.
     transpose01 memory1))"

definition parse_outputs ::
  "'w decoder \<Rightarrow> real tensor list \<Rightarrow> real tensor list \<Rightarrow> real tensor list
     \<Rightarrow> error + (real tensor \<times> real tensor \<times> real tensor)" where
  "parse_outputs d outputs stop_tokens alignments =
     ebind (ebind (stack alignments) transpose01) (\<lambda>alignments1.
     ebind (ebind (stack stop_tokens) transpose01) (\<lambda>stop_tokens1.
     ebind (ebind (stack outputs) transpose01) (\<lambda>outputs1.
     ebind (tsize outputs1 0) (\<lambda>s0.
     ebind (view outputs1 [int s0, - 1, frame_dim d]) (\<lambda>outputs2.
     ebind (transpose12 outputs2) (\<lambda>outputs3.
     Inr (outputs3, stop_tokens1, alignments1)))))))"

definition update_memory :: "'w decoder \<Rightarrow> 'a tensor \<Rightarrow> error + 'a tensor" where
  "update_memory d memory =
     (if length (shape memory) = 2
      then slice_axis memory 1 (Some (frame_dim d * (r d - 1))) None
      else slice_axis memory 2 (Some (frame_dim d * (r d - 1))) None)"

definition stopnet_fwd ::
  "'w caps \<Rightarrow> 'w decoder \<Rightarrow> 'w \<Rightarrow> real tensor \<Rightarrow> error + (real tensor \<times> 'w)" where
  "stopnet_fwd caps d w x =
     ebind (dropout_fwd caps (fst (stopnet d)) (training d) w x) (\<lambda>(y, w1).
     ebind (linear_fwd caps (snd (stopnet d)) y) (\<lambda>z.
     Inr (z, w1)))"

text \<open>
  \<^verbatim>\<open>Decoder.decode\<close>, one decode step, in two parts. \<open>decode_raw\<close> is the body up to the
  stop network: the result is the full output of the linear projection, the attention
  weights and the stop logit, with the decoder whose recurrent state is updated.
  \<open>decode\<close> then keeps the columns \<^verbatim>\<open>[:, :self.r * self.frame_dim]\<close> of the projection and
  returns the triple in the source's order
  (\<^verbatim>\<open>decoder_output, self.attention.attention_weights, stop_token\<close>).
\<close>

definition decode_raw ::
  "'w caps \<Rightarrow> 'w decoder \<Rightarrow> real tensor
     \<Rightarrow> error + ((real tensor \<times> real tensor \<times> real tensor) \<times> 'w decoder)" where
  "decode_raw caps d memory =
     ebind (attr (context_vec d)) (\<lambda>context0.
     ebind (cat memory context0 (- 1)) (\<lambda>query_input.
     ebind (attr (query d)) (\<lambda>query0.
     ebind (attr (attention_rnn_cell_state d)) (\<lambda>cell0.
     ebind (lstm_fwd caps (attention_rnn d) query_input (query0, cell0)) (\<lambda>(query1, cell1).
     ebind (dropout_fwd caps (p_attention_dropout d) (training d) (world d) query1) (\<lambda>(query2, w1).
     ebind (dropout_fwd caps (p_attention_dropout d) (training d) w1 cell1) (\<lambda>(cell2, w2).
     ebind (attr (inputs d)) (\<lambda>inputs0.
     ebind (attr (processed_inputs d)) (\<lambda>processed0.
     ebind (attr (mask d)) (\<lambda>mask0.
     ebind (attn_fwd caps (attention d) (training d) w2 query2 inputs0 processed0 mask0) (\<lambda>(context1, w3).
     ebind (cat query2 context1 (- 1)) (\<lambda>decoder_rnn_input.
     ebind (attr (decoder_hidden d)) (\<lambda>hidden0.
     ebind (attr (decoder_cell d)) (\<lambda>dcell0.
     ebind (lstm_fwd caps (decoder_rnn d) decoder_rnn_input (hidden0, dcell0)) (\<lambda>(hidden1, dcell1).
     ebind (dropout_fwd caps (p_decoder_dropout d) (training d) w3 hidden1) (\<lambda>(hidden2, w4).
     ebind (cat hidden2 context1 1) (\<lambda>decoder_hidden_context.
     ebind (linear_fwd caps (linear_projection d) decoder_hidden_context) (\<lambda>decoder_output.
     ebind (cat hidden2 decoder_output 1) (\<lambda>stopnet_input.
     ebind (if separate_stopnet d then stopnet_fwd caps d w4 (detach stopnet_input)
            else stopnet_fwd caps d w4 stopnet_input) (\<lambda>(stop_token, w5).
     ebind (attn_attention_weights caps w5) (\<lambda>attention_weights.
     Inr ((decoder_output, attention_weights, stop_token),
          d\<lparr>query := Some query2, attention_rnn_cell_state := Some cell2,
            decoder_hidden := Some hidden2, decoder_cell := Some dcell1,
            context_vec := Some context1, world := w5\<rparr>))))))))))))))))))))))"

definition decode ::
  "'w caps \<Rightarrow> 'w decoder \<Rightarrow> real tensor
     \<Rightarrow> error + ((real tensor \<times> real tensor \<times> real tensor) \<times> 'w decoder)" where
  "decode caps d memory =
     ebind (decode_raw caps d memory) (\<lambda>((decoder_output, attention_weights, stop_token), d1).
     ebind (slice_axis decoder_output 1 None (Some (r d * frame_dim d))) (\<lambda>decoder_output1.
     Inr ((decoder_output1, attention_weights, stop_token), d1)))"

section \<open>Teacher-forced run\<close>

text \<open>
  One pass of the body of the loop of \<^verbatim>\<open>Decoder.forward\<close>, for \<open>n\<close> outputs collected so
  far: the decoder after the step and the three values the loop appends.
\<close>

definition forward_step ::
  "'w caps \<Rightarrow> 'w decoder \<Rightarrow> real tensor \<Rightarrow> nat
     \<Rightarrow> error + ('w decoder \<times> real tensor \<times> real tensor \<times> real tensor)" where
  "forward_step caps d memories n =
     ebind (index0 memories n) (\<lambda>memory.
     ebind (decode caps d memory) (\<lambda>((decoder_output, attention_weights, stop_token), d1).
     ebind (squeeze1 decoder_output) (\<lambda>output.
     ebind (squeeze1 stop_token) (\<lambda>stop_token1.
     Inr (d1, output, stop_token1, attention_weights)))))"

function forward_loop ::
  "'w caps \<Rightarrow> real tensor \<Rightarrow> 'w decoder \<Rightarrow> real tensor list \<Rightarrow> real tensor list
     \<Rightarrow> real tensor list
     \<Rightarrow> error + ('w decoder \<times> real tensor list \<times> real tensor list \<times> real tensor list)" where
  "forward_loop caps memories d outputs stop_tokens alignments =
     (case tsize memories 0 of
        Inl e \<Rightarrow> Inl e
      | Inr n \<Rightarrow>
          if int (length outputs) < int n - 1 then
            (case forward_step caps d memories (length outputs) of
               Inl e \<Rightarrow> Inl e
             | Inr (d1, output, stop_token, attention_weights) \<Rightarrow>
                 forward_loop caps memories d1 (outputs @ [output])
                   (stop_tokens @ [stop_token]) (alignments @ [attention_weights]))
          else Inr (d, outputs, stop_tokens, alignments))"
  by pat_completeness auto
termination
  by (relation "measure (\<lambda>(caps, memories, d, outputs, stop_tokens, alignments).
        case tsize memories 0 of Inl e \<Rightarrow> 0 | Inr n \<Rightarrow> n - length outputs)") auto

text \<open>\<^verbatim>\<open>Decoder.forward\<close> up to the end of its loop: the lists of the steps' results.\<close>

definition forward_steps ::
  "'w caps \<Rightarrow> 'w decoder \<Rightarrow> real tensor \<Rightarrow> real tensor \<Rightarrow> bool tensor option
     \<Rightarrow> real tensor option
     \<Rightarrow> error + ('w decoder \<times> real tensor list \<times> real tensor list \<times> real tensor list)" where
  "forward_steps caps d inputs0 memories mask0 speaker_embeddings =
     ebind (get_go_frame d inputs0) (\<lambda>go_frame.
     ebind (reshape_memory d memories) (\<lambda>memories1.
     ebind (cat (unsqueeze0 go_frame) memories1 0) (\<lambda>memories2.
     ebind (update_memory d memories2) (\<lambda>memories3.
     ebind (case speaker_embeddings of
              None \<Rightarrow> Inr memories3
            | Some se \<Rightarrow> cat memories3 se (- 1)) (\<lambda>memories4.
     ebind (prenet_fwd caps (prenet d) (training d) (world d) memories4) (\<lambda>(memories5, w1).
     ebind (init_states caps (d\<lparr>world := w1\<rparr>) inputs0 mask0 False) (\<lambda>d1.
     ebind (attn_init_states caps (attention d1) (world d1) inputs0) (\<lambda>w2.
     forward_loop caps memories5 (d1\<lparr>world := w2\<rparr>) [] [] []))))))))"

text \<open>
  \<^verbatim>\<open>Decoder.forward\<close>. The result is the triple in the order of the source's
  \<^verbatim>\<open>return outputs, alignments, stop_tokens\<close>, and the decoder after the run.
\<close>

definition forward ::
  "'w caps \<Rightarrow> 'w decoder \<Rightarrow> real tensor \<Rightarrow> real tensor \<Rightarrow> bool tensor option
     \<Rightarrow> real tensor option
     \<Rightarrow> error + ((real tensor \<times> real tensor \<times> real tensor) \<times> 'w decoder)" where
  "forward caps d inputs0 memories mask0 speaker_embeddings =
     ebind (forward_steps caps d inputs0 memories mask0 speaker_embeddings)
       (\<lambda>(d1, outputs, stop_tokens, alignments).
     ebind (parse_outputs d1 outputs stop_tokens alignments)
       (\<lambda>(outputs1, stop_tokens1, alignments1).
     Inr ((outputs1, alignments1, stop_tokens1), d1)))"

section \<open>Free-running inference\<close>

text \<open>
  The local variables of the two inference loops: the decoder, the three lists and the
  counter \<open>t\<close>.
\<close>

record 'w run =
  run_dec :: "'w decoder"
  run_outputs :: "real tensor list"
  run_stop_tokens :: "real tensor list"
  run_alignments :: "real tensor list"
  run_t :: int

datatype 'w step = Break "'w run" | Continue "'w run" "real tensor"

definition max_steps_notice :: string where
  "max_steps_notice = ''   | > Decoder stopped with 'max_decoder_steps''"

text \<open>
  The stop test of \<^verbatim>\<open>Decoder.inference\<close>,
  \<^verbatim>\<open>stop_token > 0.7 and t > inputs.shape[0] / 2\<close>. Python's \<^verbatim>\<open>and\<close> takes the truth
  value of the comparison's tensor first and reads \<^verbatim>\<open>inputs.shape[0]\<close> only when it is
  true; \<^verbatim>\<open>/\<close> is true division.
\<close>

definition inference_gate :: "real tensor \<Rightarrow> int \<Rightarrow> real tensor \<Rightarrow> error + bool" where
  "inference_gate inputs0 t stop_token =
     ebind (tensor_bool (tensor_gt stop_token 0.7)) (\<lambda>above.
       if above then ebind (tsize inputs0 0) (\<lambda>n. Inr (real n / 2 < real_of_int t))
       else Inr False)"

text \<open>
  The first half of the body of the loop of \<^verbatim>\<open>Decoder.inference\<close>, down to the three
  appends: the values of \<^verbatim>\<open>decoder_output\<close>, \<^verbatim>\<open>alignment\<close>, \<^verbatim>\<open>stop_token\<close> (after the
  sigmoid) and \<^verbatim>\<open>decoder_output.squeeze(1)\<close>, and the decoder after the step.
\<close>

definition inference_decode ::
  "'w caps \<Rightarrow> real tensor option \<Rightarrow> 'w decoder \<Rightarrow> real tensor
     \<Rightarrow> error + ((real tensor \<times> real tensor \<times> real tensor \<times> real tensor) \<times> 'w decoder)" where
  "inference_decode caps speaker_embeddings d memory =
     ebind (prenet_fwd caps (prenet d) (training d) (world d) memory) (\<lambda>(memory1, w1).
     ebind (case speaker_embeddings of
              None \<Rightarrow> Inr memory1
            | Some se \<Rightarrow> cat memory1 se (- 1)) (\<lambda>memory2.
     ebind (decode caps (d\<lparr>world := w1\<rparr>) memory2)
       (\<lambda>((decoder_output, alignment, stop_token), d1).
     ebind (squeeze1 decoder_output) (\<lambda>output.
     Inr ((decoder_output, alignment, tsigmoid stop_token, output), d1)))))"

text \<open>The lists after the three appends of a loop body.\<close>

definition appended ::
  "'w run \<Rightarrow> 'w decoder \<Rightarrow> real tensor \<Rightarrow> real tensor \<Rightarrow> real tensor \<Rightarrow> 'w run" where
  "appended rn d1 output stop_token alignment =
     rn\<lparr>run_dec := d1,
        run_outputs := run_outputs rn @ [output],
        run_stop_tokens := run_stop_tokens rn @ [stop_token],
        run_alignments := run_alignments rn @ [alignment]\<rparr>"

text \<open>One pass of the body of the loop of \<^verbatim>\<open>Decoder.inference\<close>.\<close>

definition inference_body ::
  "'w caps \<Rightarrow> real tensor \<Rightarrow> real tensor option \<Rightarrow> 'w run \<Rightarrow> real tensor \<Rightarrow> error + 'w step" where
  "inference_body caps inputs0 speaker_embeddings rn memory =
     ebind (inference_decode caps speaker_embeddings (run_dec rn) memory)
       (\<lambda>((decoder_output, alignment, stop_token, output), d1).
     ebind (inference_gate inputs0 (run_t rn) stop_token) (\<lambda>fire.
       if fire then Inr (Break (appended rn d1 output stop_token alignment))
       else if int (length (run_outputs rn @ [output])) = max_decoder_steps d1 then
         Inr (Break (appended rn (d1\<lparr>stdout := stdout d1 @ [max_steps_notice]\<rparr>)
                       output stop_token alignment))
       else
         ebind (update_memory d1 decoder_output) (\<lambda>memory1.
         Inr (Continue ((appended rn d1 output stop_token alignment)\<lparr>run_t := run_t rn + 1\<rparr>)
                memory1))))"

text \<open>
  The loop \<^verbatim>\<open>while True\<close> of \<^verbatim>\<open>Decoder.inference\<close>: the value is \<open>None\<close> when the loop
  does not end.
\<close>

partial_function (option) inference_loop ::
  "'w caps \<Rightarrow> real tensor \<Rightarrow> real tensor option \<Rightarrow> 'w run \<Rightarrow> real tensor
     \<Rightarrow> (error + 'w run) option" where
  "inference_loop caps inputs0 speaker_embeddings rn memory =
     (case inference_body caps inputs0 speaker_embeddings rn memory of
        Inl e \<Rightarrow> Some (Inl e)
      | Inr (Break rn1) \<Rightarrow> Some (Inr rn1)
      | Inr (Continue rn1 memory1) \<Rightarrow> inference_loop caps inputs0 speaker_embeddings rn1 memory1)"

text \<open>
  The lines of \<^verbatim>\<open>Decoder.inference\<close> before its loop: the decoder and the first
  \<^verbatim>\<open>memory\<close> the loop starts from.
\<close>

definition inference_entry ::
  "'w caps \<Rightarrow> 'w decoder \<Rightarrow> real tensor \<Rightarrow> error + ('w decoder \<times> real tensor)" where
  "inference_entry caps d inputs0 =
     ebind (get_go_frame d inputs0) (\<lambda>go_frame.
     ebind (update_memory d go_frame) (\<lambda>memory.
     ebind (init_states caps d inputs0 None False) (\<lambda>d1.
     ebind (attn_init_states caps (attention d1) (world d1) inputs0) (\<lambda>w1.
     Inr (d1\<lparr>world := w1\<rparr>, memory)))))"

definition start_run :: "'w decoder \<Rightarrow> 'w run" where
  "start_run d =
     \<lparr>run_dec = d, run_outputs = [], run_stop_tokens = [], run_alignments = [], run_t = 0\<rparr>"

text \<open>\<^verbatim>\<open>Decoder.inference\<close> up to the end of its loop.\<close>

definition inference_steps ::
  "'w caps \<Rightarrow> 'w decoder \<Rightarrow> real tensor \<Rightarrow> real tensor option \<Rightarrow> (error + 'w run) option" where
  "inference_steps caps d inputs0 speaker_embeddings =
     (case inference_entry caps d inputs0 of
        Inl e \<Rightarrow> Some (Inl e)
      | Inr (d1, memory) \<Rightarrow>
          inference_loop caps inputs0 speaker_embeddings (start_run d1) memory)"

text \<open>What both inference methods do after their loop: parse and return.\<close>

definition finish_run ::
  "'w run \<Rightarrow> error + ((real tensor \<times> real tensor \<times> real tensor) \<times> 'w decoder)" where
  "finish_run rn =
     ebind (parse_outputs (run_dec rn) (run_outputs rn) (run_stop_tokens rn) (run_alignments rn))
       (\<lambda>(outputs1, stop_tokens1, alignments1).
     Inr ((outputs1, alignments1, stop_tokens1), run_dec rn))"

definition inference ::
  "'w caps \<Rightarrow> 'w decoder \<Rightarrow> real tensor \<Rightarrow> real tensor option
     \<Rightarrow> (error + ((real tensor \<times> real tensor \<times> real tensor) \<times> 'w decoder)) option" where
  "inference caps d inputs0 speaker_embeddings =
     map_option (\<lambda>res. ebind res finish_run) (inference_steps caps d inputs0 speaker_embeddings)"

section \<open>Truncated inference\<close>

text \<open>
  The stop test of \<^verbatim>\<open>Decoder.inference_truncated\<close>, \<^verbatim>\<open>stop_token > 0.7\<close>, and the two
  halves of the body of its loop. The frame fed to the prenet is the field
  \<^verbatim>\<open>memory_truncated\<close>; handing the prenet \<^verbatim>\<open>None\<close> raises TypeError.
\<close>

definition truncated_gate :: "real tensor \<Rightarrow> error + bool" where
  "truncated_gate stop_token = tensor_bool (tensor_gt stop_token 0.7)"

definition prenet_call ::
  "'w caps \<Rightarrow> 'w decoder \<Rightarrow> real tensor option \<Rightarrow> error + (real tensor \<times> 'w)" where
  "prenet_call caps d memory =
     (case memory of
        None \<Rightarrow> Inl TypeError
      | Some m \<Rightarrow> prenet_fwd caps (prenet d) (training d) (world d) m)"

definition truncated_decode ::
  "'w caps \<Rightarrow> 'w decoder
     \<Rightarrow> error + ((real tensor \<times> real tensor \<times> real tensor \<times> real tensor) \<times> 'w decoder)" where
  "truncated_decode caps d =
     ebind (prenet_call caps d (memory_truncated d)) (\<lambda>(memory, w1).
     ebind (decode caps (d\<lparr>world := w1\<rparr>) memory)
       (\<lambda>((decoder_output, alignment, stop_token), d1).
     ebind (squeeze1 decoder_output) (\<lambda>output.
     Inr ((decoder_output, alignment, tsigmoid stop_token, output), d1))))"

datatype 'w tstep = TBreak "'w run" | TContinue "'w run"

definition truncated_body :: "'w caps \<Rightarrow> 'w run \<Rightarrow> error + 'w tstep" where
  "truncated_body caps rn =
     ebind (truncated_decode caps (run_dec rn))
       (\<lambda>((decoder_output, alignment, stop_token, output), d1).
     ebind (truncated_gate stop_token) (\<lambda>fire.
       if fire then Inr (TBreak (appended rn d1 output stop_token alignment))
       else if int (length (run_outputs rn @ [output])) = max_decoder_steps d1 then
         Inr (TBreak (appended rn (d1\<lparr>stdout := stdout d1 @ [max_steps_notice]\<rparr>)
                        output stop_token alignment))
       else
         Inr (TContinue ((appended rn (d1\<lparr>memory_truncated := Some decoder_output\<rparr>)
                            output stop_token alignment)\<lparr>run_t := run_t rn + 1\<rparr>))))"

partial_function (option) truncated_loop :: "'w caps \<Rightarrow> 'w run \<Rightarrow> (error + 'w run) option" where
  "truncated_loop caps rn =
     (case truncated_body caps rn of
        Inl e \<Rightarrow> Some (Inl e)
      | Inr (TBreak rn1) \<Rightarrow> Some (Inr rn1)
      | Inr (TContinue rn1) \<Rightarrow> truncated_loop caps rn1)"

text \<open>
  The entry of \<^verbatim>\<open>Decoder.inference_truncated\<close>, from its first line to the line before the
  loop: the decoder the loop starts from.
\<close>

definition truncated_entry :: "'w caps \<Rightarrow> 'w decoder \<Rightarrow> real tensor \<Rightarrow> error + 'w decoder" where
  "truncated_entry caps d inputs0 =
     ebind (case memory_truncated d of
              None \<Rightarrow>
                ebind (get_go_frame d inputs0) (\<lambda>go_frame.
                init_states caps (d\<lparr>memory_truncated := Some go_frame\<rparr>) inputs0 None False)
            | Some m \<Rightarrow> init_states caps d inputs0 None True) (\<lambda>d1.
     ebind (attn_init_win_idx caps (attention d1) (world d1)) (\<lambda>w1.
     ebind (attn_init_states caps (attention d1) w1 inputs0) (\<lambda>w2.
     Inr (d1\<lparr>world := w2\<rparr>))))"

definition truncated_steps ::
  "'w caps \<Rightarrow> 'w decoder \<Rightarrow> real tensor \<Rightarrow> (error + 'w run) option" where
  "truncated_steps caps d inputs0 =
     (case truncated_entry caps d inputs0 of
        Inl e \<Rightarrow> Some (Inl e)
      | Inr d1 \<Rightarrow> truncated_loop caps (start_run d1))"

definition inference_truncated ::
  "'w caps \<Rightarrow> 'w decoder \<Rightarrow> real tensor
     \<Rightarrow> (error + ((real tensor \<times> real tensor \<times> real tensor) \<times> 'w decoder)) option" where
  "inference_truncated caps d inputs0 =
     map_option (\<lambda>res. ebind res finish_run) (truncated_steps caps d inputs0)"

section \<open>Single-step entry\<close>

text \<open>
  \<^verbatim>\<open>Decoder.inference_step\<close>. The source unpacks the triple of \<^verbatim>\<open>decode\<close> as
  \<^verbatim>\<open>decoder_output, stop_token, alignment\<close>; the pattern below binds the same names to the
  same positions. The last assignment of the source, to the local \<^verbatim>\<open>memory\<close>, changes
  nothing that is returned.
\<close>

definition inference_step ::
  "'w caps \<Rightarrow> 'w decoder \<Rightarrow> real tensor \<Rightarrow> int \<Rightarrow> real tensor option
     \<Rightarrow> error + ((real tensor \<times> real tensor \<times> real tensor) \<times> 'w decoder)" where
  "inference_step caps d inputs0 t memory =
     ebind (if t = 0 then
              ebind (get_go_frame d inputs0) (\<lambda>go_frame.
              ebind (init_states caps d inputs0 None False) (\<lambda>d1.
              Inr (d1, Some go_frame)))
            else Inr (d, memory)) (\<lambda>(d1, memory1).
     ebind (prenet_call caps d1 memory1) (\<lambda>(memory2, w1).
     ebind (decode caps (d1\<lparr>world := w1\<rparr>) memory2)
       (\<lambda>((decoder_output, stop_token, alignment), d2).
     Inr ((decoder_output, tsigmoid stop_token, alignment), d2))))"

section \<open>Reading a tensor by rows\<close>

text \<open>The rows of a tensor along its trailing axis, in order.\<close>

definition rows_of :: "'a tensor \<Rightarrow> 'a list list" where
  "rows_of t = chunks (prod_list (butlast (shape t))) (last (shape t)) (elems t)"

section \<open>A small decoder to run\<close>

text \<open>
  A decoder and layers small enough to evaluate. The layers return constant tensors of
  the right shapes: the prenet two features per row, the recurrent cells one, the linear
  layers \<open>out_features\<close> columns, each holding the number \<open>logit\<close>. The world is the
  attention module's weights: one row per batch element, one column per encoder step.
  Dropout is the identity, as in evaluation mode.
\<close>

definition const_tensor :: "nat list \<Rightarrow> real \<Rightarrow> real tensor" where
  "const_tensor s c = \<lparr>shape = s, elems = replicate (prod_list s) c\<rparr>"

definition example_decoder :: "int \<Rightarrow> int \<Rightarrow> real tensor decoder" where
  "example_decoder fd r0 =
     Decoder_init (const_tensor [] 0) 2 fd r0 ''original'' False ''softmax'' ''original''
       True False False False True 5 False 0"

definition example_caps :: "real \<Rightarrow> real tensor caps" where
  "example_caps logit =
     \<lparr>prenet_fwd = (\<lambda>p tr w x. Inr (const_tensor (butlast (shape x) @ [2]) 0, w)),
      lstm_fwd = (\<lambda>cell x hc.
        Inr (const_tensor (take 1 (shape x) @ [1]) 0, const_tensor (take 1 (shape x) @ [1]) 0)),
      dropout_fwd = (\<lambda>p tr w x. Inr (x, w)),
      linear_fwd = (\<lambda>lin x.
        Inr (const_tensor (take 1 (shape x) @ [nat (out_features lin)]) logit)),
      attn_preprocess_inputs = (\<lambda>a w x. Inr (x, w)),
      attn_init_states = (\<lambda>a w x. Inr (const_tensor (take 2 (shape x)) 0)),
      attn_init_win_idx = (\<lambda>a w. Inr w),
      attn_fwd = (\<lambda>a tr w q x p m.
        Inr (const_tensor (take 1 (shape x) @ [2]) 0, const_tensor (take 2 (shape x)) 0)),
      attn_attention_weights = (\<lambda>w. Inr w)\<rparr>"

text \<open>
  \<open>example_ready d T\<close>: the decoder holds what a decode step with these layers reads, for
  a batch of one and \<open>T\<close> encoder steps. \<open>example_after d T\<close> is the decoder after such a
  step.
\<close>

definition example_ready :: "real tensor decoder \<Rightarrow> nat \<Rightarrow> bool" where
  "example_ready d T \<longleftrightarrow>
     (case context_vec d of None \<Rightarrow> False | Some c \<Rightarrow> length (shape c) = 2 \<and> hd (shape c) = 1)
     \<and> query d \<noteq> None \<and> attention_rnn_cell_state d \<noteq> None
     \<and> map_option shape (inputs d) = Some [1, T, 2]
     \<and> processed_inputs d \<noteq> None \<and> mask d \<noteq> None
     \<and> decoder_hidden d \<noteq> None \<and> decoder_cell d \<noteq> None"

definition example_after :: "real tensor decoder \<Rightarrow> nat \<Rightarrow> real tensor decoder" where
  "example_after d T =
     d\<lparr>query := Some (const_tensor [1, 1] 0),
       attention_rnn_cell_state := Some (const_tensor [1, 1] 0),
       decoder_hidden := Some (const_tensor [1, 1] 0),
       decoder_cell := Some (const_tensor [1, 1] 0),
       context_vec := Some (const_tensor [1, 2] 0),
       world := const_tensor [1, T] 0\<rparr>"

text \<open>The small decoder after \<^verbatim>\<open>_init_states\<close> on an input of \<open>T\<close> encoder steps.\<close>

definition example_started :: "int \<Rightarrow> int \<Rightarrow> nat \<Rightarrow> real tensor decoder" where
  "example_started fd r0 T =
     (example_decoder fd r0)
       \<lparr>query := Some (const_tensor [1, 1024] 0),
        attention_rnn_cell_state := Some (const_tensor [1, 1024] 0),
        decoder_hidden := Some (const_tensor [1, 1024] 0),
        decoder_cell := Some (const_tensor [1, 1024] 0),
        context_vec := Some (const_tensor [1, 2] 0),
        inputs := Some (const_tensor [1, T, 2] 0),
        processed_inputs := Some (const_tensor [1, T, 2] 0),
        mask := Some None\<rparr>"

text \<open>
  Layers as above whose linear layers return \<open>0, 1, 2, \<dots>\<close> along each row, so that the
  columns of a projection can be told apart.
\<close>

definition ramp_tensor :: "nat list \<Rightarrow> real tensor" where
  "ramp_tensor s = \<lparr>shape = s, elems = map real [0..<prod_list s]\<rparr>"

definition ramp_caps :: "real tensor caps" where
  "ramp_caps = (example_caps 0)
     \<lparr>linear_fwd := (\<lambda>lin x. Inr (ramp_tensor (take 1 (shape x) @ [nat (out_features lin)])))\<rparr>"

section \<open>Rows and slices\<close>

lemma length_chunks: "length (chunks n k xs) = n"
  by (simp add: chunks_def)

lemma nth_chunks: "i < n \<Longrightarrow> chunks n k xs ! i = take k (drop (i * k) xs)"
  by (simp add: chunks_def)

lemma length_nth_chunks:
  assumes "n * k \<le> length xs" "i < n"
  shows "length (chunks n k xs ! i) = k"
proof -
  have "Suc i * k \<le> n * k" using assms(2) by (intro mult_le_mono1) simp
  then have "i * k + k \<le> length xs" using assms(1) by simp
  then show ?thesis using assms(2) by (simp add: nth_chunks)
qed

lemma drop_concat_uniform:
  "\<forall>x \<in> set xss. length x = k \<Longrightarrow> drop (i * k) (concat xss) = concat (drop i xss)"
proof (induction xss arbitrary: i)
  case Nil
  then show ?case by simp
next
  case (Cons x xss)
  show ?case
  proof (cases i)
    case 0
    then show ?thesis by simp
  next
    case (Suc j)
    have "drop (k + j * k) (x @ concat xss) = drop (j * k) (concat xss)"
      using Cons.prems by simp
    then show ?thesis using Suc Cons by simp
  qed
qed

lemma chunks_concat:
  assumes "\<forall>x \<in> set xss. length x = k"
  shows "chunks (length xss) k (concat xss) = xss"
proof (rule nth_equalityI)
  show "length (chunks (length xss) k (concat xss)) = length xss"
    by (simp add: length_chunks)
next
  fix i assume "i < length (chunks (length xss) k (concat xss))"
  then have i: "i < length xss" by (simp add: length_chunks)
  then obtain y ys where d: "drop i xss = y # ys"
    by (metis Cons_nth_drop_Suc)
  then have "y \<in> set xss" by (metis in_set_dropD list.set_intros(1))
  then have ly: "length y = k" using assms by simp
  have y: "y = xss ! i" using d i by (metis Cons_nth_drop_Suc list.inject)
  show "chunks (length xss) k (concat xss) ! i = xss ! i"
    using i by (simp add: nth_chunks drop_concat_uniform[OF assms] d ly y[symmetric])
qed


lemma list_update_last: "Suc i = length xs \<Longrightarrow> xs[i := v] = butlast xs @ [v]"
  by (induction xs arbitrary: i rule: rev_induct) simp_all

lemma prod_list_butlast_last: "xs \<noteq> [] \<Longrightarrow> prod_list xs = prod_list (butlast xs) * last xs"
  by (induction xs rule: rev_induct) simp_all

lemma slice_bound_le: "slice_bound n i \<le> n"
  by (auto simp: slice_bound_def)

lemma slice_range_le:
  assumes "slice_range n start stop = (lo, hi)"
  shows "hi \<le> n"
  using assms by (auto simp: slice_range_def slice_bound_le split: option.splits)

lemma slice_last_axis_rows:
  assumes i: "Suc i = length (shape t)"
    and wf: "length (elems t) = prod_list (shape t)"
    and sr: "slice_range (last (shape t)) start stop = (lo, hi)"
  shows "\<exists>t'. slice_axis t i start stop = Inr t'
           \<and> shape t' = butlast (shape t) @ [hi - lo]
           \<and> rows_of t' = map (\<lambda>row. take (hi - lo) (drop lo row)) (rows_of t)"
proof -
  define n where "n = last (shape t)"
  define outer where "outer = prod_list (butlast (shape t))"
  define cut where "cut = (\<lambda>row :: 'a list. take (hi - lo) (drop lo row))"
  define t' where "t' = \<lparr>shape = butlast (shape t) @ [hi - lo],
      elems = concat (map cut (chunks outer n (elems t)))\<rparr>"
  have ne: "shape t \<noteq> []" using i by auto
  have nth: "shape t ! i = n"
    using ne i by (simp add: n_def last_conv_nth flip: i)
  have tk: "take i (shape t) = butlast (shape t)"
    using i by (simp add: butlast_conv_take flip: i)
  have dr: "drop (Suc i) (shape t) = []"
    using i by simp
  have sr': "slice_range n start stop = (lo, hi)"
    using sr by (simp add: n_def)
  have hi: "hi \<le> n" by (rule slice_range_le[OF sr'])
  have prod: "prod_list (shape t) = outer * n"
    using ne by (simp add: prod_list_butlast_last outer_def n_def)
  have len: "\<And>j. j < outer \<Longrightarrow> length (chunks outer n (elems t) ! j) = n"
    by (rule length_nth_chunks) (simp_all add: wf prod)
  have le: "\<not> length (shape t) \<le> i" using i by simp
  have eq: "slice_axis t i start stop = Inr t'"
    unfolding slice_axis_def Let_def nth tk dr sr' t'_def cut_def
    using le by (simp add: list_update_last[OF i] outer_def[symmetric])
  have "\<forall>x \<in> set (map cut (chunks outer n (elems t))). length x = hi - lo"
    using hi by (auto simp: in_set_conv_nth length_chunks len cut_def)
  from chunks_concat[OF this]
  have "rows_of t' = map cut (chunks outer n (elems t))"
    by (simp add: rows_of_def t'_def length_chunks outer_def)
  then have "rows_of t' = map cut (rows_of t)"
    by (simp add: rows_of_def outer_def n_def)
  with eq show ?thesis by (auto simp: t'_def cut_def)
qed

lemma rows_of_length:
  assumes "shape t \<noteq> []" "length (elems t) = prod_list (shape t)"
  shows "\<forall>row \<in> set (rows_of t). length row = last (shape t)"
  using assms
  by (auto simp: rows_of_def in_set_conv_nth length_chunks prod_list_butlast_last
      intro!: length_nth_chunks)

lemma slice_last_axis:
  assumes i: "Suc i = length (shape t)"
    and wf: "length (elems t) = prod_list (shape t)"
    and k: "0 \<le> k" "nat k \<le> last (shape t)"
  shows "\<exists>t'. slice_axis t i (Some k) None = Inr t'
           \<and> shape t' = butlast (shape t) @ [last (shape t) - nat k]
           \<and> rows_of t' = map (drop (nat k)) (rows_of t)"
proof -
  have ne: "shape t \<noteq> []" using i by auto
  have sr: "slice_range (last (shape t)) (Some k) None = (nat k, last (shape t))"
    using k by (simp add: slice_range_def slice_bound_def)
  have "map (\<lambda>row. take (last (shape t) - nat k) (drop (nat k) row)) (rows_of t)
      = map (drop (nat k)) (rows_of t)"
    using rows_of_length[OF ne wf] by (intro map_cong) auto
  with slice_last_axis_rows[OF i wf sr] show ?thesis by auto
qed

lemma slice_last_axis_upto:
  assumes i: "Suc i = length (shape t)"
    and wf: "length (elems t) = prod_list (shape t)"
    and k: "0 \<le> k"
  shows "\<exists>t'. slice_axis t i None (Some k) = Inr t'
           \<and> shape t' = butlast (shape t) @ [min (last (shape t)) (nat k)]
           \<and> rows_of t' = map (take (nat k)) (rows_of t)"
proof -
  have ne: "shape t \<noteq> []" using i by auto
  have sr: "slice_range (last (shape t)) None (Some k) = (0, min (last (shape t)) (nat k))"
    using k by (simp add: slice_range_def slice_bound_def)
  have "map (\<lambda>row. take (min (last (shape t)) (nat k) - 0) (drop 0 row)) (rows_of t)
      = map (take (nat k)) (rows_of t)"
    using rows_of_length[OF ne wf] by (intro map_cong) (auto simp: min_def)
  with slice_last_axis_rows[OF i wf sr] show ?thesis by auto
qed

section \<open>The memory update rule\<close>

lemma update_memory_rows:
  assumes rd: "1 \<le> r d" and fd: "0 \<le> frame_dim d"
    and rank: "length (shape t) = 2 \<or> length (shape t) = 3"
    and width: "last (shape t) = nat (frame_dim d * r d)"
    and wf: "length (elems t) = prod_list (shape t)"
  shows "\<exists>t'. update_memory d t = Inr t'
           \<and> shape t' = butlast (shape t) @ [nat (frame_dim d)]
           \<and> rows_of t' = map (\<lambda>row. drop (length row - nat (frame_dim d)) row) (rows_of t)"
proof -
  define k where "k = frame_dim d * (r d - 1)"
  define i where "i = length (shape t) - 1"
  have i: "Suc i = length (shape t)" using rank by (auto simp: i_def)
  have ne: "shape t \<noteq> []" using rank by auto
  have k0: "0 \<le> k" using rd fd by (simp add: k_def)
  have "k + frame_dim d = frame_dim d * r d" by (simp add: k_def algebra_simps)
  then have kw: "nat k + nat (frame_dim d) = last (shape t)"
    using k0 fd width by (metis nat_add_distrib)
  then have kle: "nat k \<le> last (shape t)" by simp
  have kd: "last (shape t) - nat (frame_dim d) = nat k" using kw by simp
  have um: "update_memory d t = slice_axis t i (Some k) None"
    using rank by (auto simp: update_memory_def k_def i_def)
  from slice_last_axis[OF i wf k0 kle] obtain t' where
    t': "slice_axis t i (Some k) None = Inr t'"
      "shape t' = butlast (shape t) @ [last (shape t) - nat k]"
      "rows_of t' = map (drop (nat k)) (rows_of t)"
    by blast
  have "\<forall>row \<in> set (rows_of t). length row = last (shape t)"
    by (auto simp: rows_of_def in_set_conv_nth length_chunks
        intro!: length_nth_chunks simp: wf prod_list_butlast_last[OF ne])
  then have "map (drop (nat k)) (rows_of t)
      = map (\<lambda>row. drop (length row - nat (frame_dim d)) row) (rows_of t)"
    using kd by (intro map_cong) auto
  moreover have "last (shape t) - nat k = nat (frame_dim d)" using kw by simp
  ultimately show ?thesis using t' um by auto
qed

text \<open>
  Claim C4. For every reduction factor \<open>r \<ge> 1\<close> and every tensor with two or three axes
  whose trailing axis has width \<open>frame_dim * r\<close>, \<^verbatim>\<open>_update_memory\<close> returns the tensor
  with the same leading axes whose rows are the last \<open>frame_dim\<close> columns of the rows of
  its argument.
\<close>

theorem update_memory_last_columns:
  assumes rd: "1 \<le> r d" and fd: "0 \<le> frame_dim d"
    and rank: "length (shape t) = 2 \<or> length (shape t) = 3"
    and width: "last (shape t) = nat (frame_dim d * r d)"
    and wf: "length (elems t) = prod_list (shape t)"
  shows "\<exists>t'. update_memory d t = Inr t'
           \<and> shape t' = butlast (shape t) @ [nat (frame_dim d)]
           \<and> rows_of t' = map (\<lambda>row. drop (length row - nat (frame_dim d)) row) (rows_of t)"
  using assms by (rule update_memory_rows)

theorem update_memory_last_columns_witness:
  "\<exists>t'. update_memory (example_decoder 2 2) \<lparr>shape = [1, 4], elems = [1, 2, 3, 4 :: real]\<rparr> = Inr t'
     \<and> shape t' = [1, 2] \<and> rows_of t' = [[3, 4]]"
  using update_memory_last_columns
    [of "example_decoder 2 2" "\<lparr>shape = [1, 4], elems = [1, 2, 3, 4 :: real]\<rparr>"]
  by (simp add: example_decoder_def Decoder_init_def rows_of_def chunks_def)

section \<open>Running the small decoder\<close>

lemma ebind_Inl [simp]: "ebind (Inl e) f = Inl e"
  by (simp add: ebind_def)

lemma ebind_Inr [simp]: "ebind (Inr x) f = f x"
  by (simp add: ebind_def)

lemma sigmoid_0: "sigmoid 0 = 1 / 2"
  by (simp add: sigmoid_def)

lemma sigmoid_2_gt: "7 / 10 < sigmoid 2"
proof -
  have "(1::real) + 2 \<le> exp 2" by (rule exp_ge_add_one_self)
  then have "exp (- 2) \<le> (1::real) / 3"
    by (simp add: exp_minus field_simps)
  then have "1 + exp (- 2) \<le> (4::real) / 3" by simp
  then have "1 / (4 / 3) \<le> 1 / (1 + exp (- 2 :: real))"
    by (intro divide_left_mono) (simp_all add: add_pos_pos)
  then show ?thesis by (simp add: sigmoid_def)
qed

lemma sigmoid_2_gt': "7 < sigmoid 2 * 10"
  using sigmoid_2_gt by simp

lemma shape_const_tensor [simp]: "shape (const_tensor s c) = s"
  by (simp add: const_tensor_def)

lemma example_caps_sel [simp]:
  "prenet_fwd (example_caps v) = (\<lambda>p tr w x. Inr (const_tensor (butlast (shape x) @ [2]) 0, w))"
  "lstm_fwd (example_caps v) = (\<lambda>cell x hc.
     Inr (const_tensor (take 1 (shape x) @ [1]) 0, const_tensor (take 1 (shape x) @ [1]) 0))"
  "dropout_fwd (example_caps v) = (\<lambda>p tr w x. Inr (x, w))"
  "linear_fwd (example_caps v) = (\<lambda>lin x.
     Inr (const_tensor (take 1 (shape x) @ [nat (out_features lin)]) v))"
  "attn_preprocess_inputs (example_caps v) = (\<lambda>a w x. Inr (x, w))"
  "attn_init_states (example_caps v) = (\<lambda>a w x. Inr (const_tensor (take 2 (shape x)) 0))"
  "attn_init_win_idx (example_caps v) = (\<lambda>a w. Inr w)"
  "attn_fwd (example_caps v) = (\<lambda>a tr w q x p m.
     Inr (const_tensor (take 1 (shape x) @ [2]) 0, const_tensor (take 2 (shape x)) 0))"
  "attn_attention_weights (example_caps v) = (\<lambda>w. Inr w)"
  by (simp_all add: example_caps_def)

lemma cat_rank2:
  assumes "shape a = [n, ka]" "shape b = [n, kb]" "axis = 1 \<or> axis = - 1"
  shows "cat a b axis = Inr \<lparr>shape = [n, ka + kb],
     elems = concat (map2 (@) (chunks n ka (elems a)) (chunks n kb (elems b)))\<rparr>"
  using assms by (auto simp: cat_def norm_dim_def)

lemma rank2_shape:
  assumes "length (shape t) = 2"
  obtains a b where "shape t = [a, b]"
  using assms by (cases "shape t"; cases "tl (shape t)") auto

lemma zeros_repeat_const:
  "0 \<le> b \<Longrightarrow> 0 \<le> n \<Longrightarrow> zeros_repeat b n = Inr (const_tensor [nat b, nat n] 0)"
  by (simp add: zeros_repeat_def const_tensor_def)

lemma slice_const_upto:
  "0 \<le> k \<Longrightarrow> slice_axis (const_tensor [Suc 0, n] v) (Suc 0) None (Some k)
     = Inr (const_tensor [Suc 0, min n (nat k)] v)"
  by (simp add: slice_axis_def slice_range_def slice_bound_def chunks_def const_tensor_def Let_def)

lemma slice_const_from:
  "0 \<le> k \<Longrightarrow> slice_axis (const_tensor [Suc 0, n] v) (Suc 0) (Some k) None
     = Inr (const_tensor [Suc 0, n - min n (nat k)] v)"
  by (simp add: slice_axis_def slice_range_def slice_bound_def chunks_def const_tensor_def Let_def)

lemma example_decode_raw:
  assumes "example_ready d T" "length (shape memory) = 2" "hd (shape memory) = 1"
  shows "decode_raw (example_caps v) d memory =
     Inr ((const_tensor [1, nat (out_features (linear_projection d))] v,
           const_tensor [1, T] 0,
           const_tensor [1, nat (out_features (snd (stopnet d)))] v),
          example_after d T)"
proof -
  from assms(1) obtain c q cs x p m h dc where
    f: "context_vec d = Some c" "length (shape c) = 2" "hd (shape c) = 1"
       "query d = Some q" "attention_rnn_cell_state d = Some cs"
       "inputs d = Some x" "shape x = [1, T, 2]"
       "processed_inputs d = Some p" "mask d = Some m"
       "decoder_hidden d = Some h" "decoder_cell d = Some dc"
    by (auto simp: example_ready_def split: option.splits)
  from f(2,3) obtain kc where c: "shape c = [1, kc]"
    by (auto elim: rank2_shape)
  from assms(2,3) obtain km where m: "shape memory = [1, km]"
    by (auto elim: rank2_shape)
  show ?thesis
    by (simp add: decode_raw_def f c m attr_def stopnet_fwd_def detach_def cat_rank2
        example_after_def)
qed

lemma example_decode:
  assumes "example_ready d T" "length (shape memory) = 2" "hd (shape memory) = 1"
    and "0 \<le> r d * frame_dim d"
  shows "decode (example_caps v) d memory =
     Inr ((const_tensor [1, min (nat (out_features (linear_projection d)))
                              (nat (r d * frame_dim d))] v,
           const_tensor [1, T] 0,
           const_tensor [1, nat (out_features (snd (stopnet d)))] v),
          example_after d T)"
  by (simp add: decode_def example_decode_raw[OF assms(1-3)] slice_const_upto[OF assms(4)])

lemma example_after_sel [simp]:
  "frame_dim (example_after d T) = frame_dim d"
  "r (example_after d T) = r d"
  "r_init (example_after d T) = r_init d"
  "max_decoder_steps (example_after d T) = max_decoder_steps d"
  "gate_threshold (example_after d T) = gate_threshold d"
  "stdout (example_after d T) = stdout d"
  "linear_projection (example_after d T) = linear_projection d"
  "stopnet (example_after d T) = stopnet d"
  "prenet (example_after d T) = prenet d"
  "training (example_after d T) = training d"
  "memory_truncated (example_after d T) = memory_truncated d"
  "world (example_after d T) = const_tensor [1, T] 0"
  by (simp_all add: example_after_def)

lemma example_ready_after [simp]:
  "example_ready d T \<Longrightarrow> example_ready (example_after d T) T"
  by (simp add: example_ready_def example_after_def)

lemma example_ready_world [simp]:
  "example_ready (d\<lparr>world := w\<rparr>) T = example_ready d T"
  "example_ready (d\<lparr>stdout := s\<rparr>) T = example_ready d T"
  "example_ready (d\<lparr>memory_truncated := m\<rparr>) T = example_ready d T"
  by (simp_all add: example_ready_def)


lemma example_decoder_sel [simp]:
  "frame_dim (example_decoder fd r0) = fd"
  "r (example_decoder fd r0) = r0"
  "r_init (example_decoder fd r0) = r0"
  "max_decoder_steps (example_decoder fd r0) = 1000000"
  "query_dim (example_decoder fd r0) = 1024"
  "decoder_rnn_dim (example_decoder fd r0) = 1024"
  "encoder_embedding_dim (example_decoder fd r0) = 2"
  "out_features (linear_projection (example_decoder fd r0)) = fd * r0"
  "out_features (snd (stopnet (example_decoder fd r0))) = 1"
  "stdout (example_decoder fd r0) = []"
  "memory_truncated (example_decoder fd r0) = None"
  "world (example_decoder fd r0) = const_tensor [] 0"
  by (simp_all add: example_decoder_def Decoder_init_def)

lemma example_init_states:
  assumes "shape X = [1, T, 2]"
    and "0 \<le> query_dim d" "0 \<le> decoder_rnn_dim d" "0 \<le> encoder_embedding_dim d"
  shows "init_states (example_caps v) d X m keep =
     Inr ((if keep then d else
             d\<lparr>query := Some (const_tensor [1, nat (query_dim d)] 0),
               attention_rnn_cell_state := Some (const_tensor [1, nat (query_dim d)] 0),
               decoder_hidden := Some (const_tensor [1, nat (decoder_rnn_dim d)] 0),
               decoder_cell := Some (const_tensor [1, nat (decoder_rnn_dim d)] 0),
               context_vec := Some (const_tensor [1, nat (encoder_embedding_dim d)] 0)\<rparr>)
           \<lparr>inputs := Some X, processed_inputs := Some X, mask := Some m\<rparr>)"
  using assms
  by (simp add: init_states_def tsize_def norm_dim_def zeros_repeat_const)

lemma squeeze1_rank2:
  "shape t = [a, b] \<Longrightarrow> squeeze1 t = Inr (if b = 1 then t\<lparr>shape := [a]\<rparr> else t)"
  by (simp add: squeeze1_def)

lemma example_inference_decode:
  assumes "example_ready d T" "length (shape memory) = 2" "hd (shape memory) = 1"
    and "0 \<le> r d * frame_dim d"
  shows "inference_decode (example_caps v) None d memory =
     Inr (let out = const_tensor [1, min (nat (out_features (linear_projection d)))
                              (nat (r d * frame_dim d))] v in
          ((out, const_tensor [1, T] 0,
            tsigmoid (const_tensor [1, nat (out_features (snd (stopnet d)))] v),
            if shape out ! 1 = 1 then out\<lparr>shape := [1]\<rparr> else out),
           example_after d T))"
proof -
  from assms(2,3) obtain km where m: "shape memory = [1, km]"
    by (auto elim: rank2_shape)
  have "decode (example_caps v) d (const_tensor [Suc 0, 2] 0) =
     Inr ((const_tensor [1, min (nat (out_features (linear_projection d)))
                              (nat (r d * frame_dim d))] v,
           const_tensor [1, T] 0,
           const_tensor [1, nat (out_features (snd (stopnet d)))] v),
          example_after d T)"
    by (rule example_decode[OF assms(1) _ _ assms(4)]) simp_all
  then show ?thesis
    by (simp add: inference_decode_def m squeeze1_rank2 Let_def)
qed

lemma example_gate:
  "tensor_bool (tensor_gt (tsigmoid (const_tensor [Suc 0, Suc 0] v)) c) = Inr (c < sigmoid v)"
  by (simp add: tensor_bool_def tensor_gt_def tsigmoid_def const_tensor_def)


lemma example_update_memory:
  "0 \<le> frame_dim d * (r d - 1) \<Longrightarrow>
   update_memory d (const_tensor [Suc 0, n] v)
     = Inr (const_tensor [Suc 0, n - min n (nat (frame_dim d * (r d - 1)))] v)"
  by (simp add: update_memory_def slice_const_from)

lemma example_inference_body:
  assumes "example_ready (run_dec rn) T" "length (shape memory) = 2" "hd (shape memory) = 1"
    and "0 \<le> r (run_dec rn) * frame_dim (run_dec rn)"
    and "0 \<le> frame_dim (run_dec rn) * (r (run_dec rn) - 1)"
    and "out_features (snd (stopnet (run_dec rn))) = 1"
    and "shape X = B # rest"
  shows "inference_body (example_caps v) X None rn memory =
     Inr (let W = min (nat (out_features (linear_projection (run_dec rn))))
                      (nat (r (run_dec rn) * frame_dim (run_dec rn)));
              out = const_tensor [1, W] v;
              rn' = appended rn (example_after (run_dec rn) T)
                      (if W = 1 then out\<lparr>shape := [1]\<rparr> else out)
                      (tsigmoid (const_tensor [1, 1] v)) (const_tensor [1, T] 0)
          in if 7 / 10 < sigmoid v \<and> real B / 2 < real_of_int (run_t rn) then Break rn'
             else if int (length (run_outputs rn)) + 1 = max_decoder_steps (run_dec rn)
               then Break (rn'\<lparr>run_dec := (example_after (run_dec rn) T)
                      \<lparr>stdout := stdout (run_dec rn) @ [max_steps_notice]\<rparr>\<rparr>)
             else Continue (rn'\<lparr>run_t := run_t rn + 1\<rparr>)
                    (const_tensor
                      [1, W - min W (nat (frame_dim (run_dec rn) * (r (run_dec rn) - 1)))] v))"
proof -
  have sz: "tsize X 0 = Inr B"
    by (simp add: tsize_def norm_dim_def assms(7))
  show ?thesis
    using assms(5)
    by (simp add: inference_body_def example_inference_decode[OF assms(1-4)] inference_gate_def
        assms(6) example_gate sz appended_def example_update_memory Let_def)
qed

lemma example_inference_entry:
  assumes "shape X = [1, T, 2]" "0 \<le> fd" "1 \<le> r0"
  shows "\<exists>d1 m. inference_entry (example_caps v) (example_decoder fd r0) X = Inr (d1, m)
     \<and> example_ready d1 T \<and> length (shape m) = 2 \<and> hd (shape m) = 1
     \<and> r d1 = r0 \<and> frame_dim d1 = fd \<and> stopnet d1 = stopnet (example_decoder fd r0)
     \<and> max_decoder_steps d1 = 1000000 \<and> stdout d1 = []"
proof -
  have a: "0 \<le> fd * r0" "0 \<le> fd * (r0 - 1)" using assms(2,3) by simp_all
  show ?thesis
    using a
    by (simp add: inference_entry_def get_go_frame_def tsize_def norm_dim_def assms(1)
        zeros_repeat_const example_update_memory example_init_states[OF assms(1)]
        example_ready_def)
qed

lemma example_started_init:
  "init_states (example_caps v) (example_decoder fd r0) (const_tensor [1, T, 2] 0) None False
     = Inr (example_started fd r0 T)"
  using example_init_states[of "const_tensor [1, T, 2] 0" T "example_decoder fd r0" v None False]
  by (simp add: example_started_def)

lemma example_started_ready [simp]: "example_ready (example_started fd r0 T) T"
  by (simp add: example_started_def example_ready_def)

lemma example_started_sel [simp]:
  "frame_dim (example_started fd r0 T) = fd"
  "r (example_started fd r0 T) = r0"
  "r_init (example_started fd r0 T) = r0"
  "max_decoder_steps (example_started fd r0 T) = 1000000"
  "out_features (linear_projection (example_started fd r0 T)) = fd * r0"
  "out_features (snd (stopnet (example_started fd r0 T))) = 1"
  "stdout (example_started fd r0 T) = []"
  "memory_truncated (example_started fd r0 T) = None"
  by (simp_all add: example_started_def)

section \<open>The stop gate of free-running inference\<close>

text \<open>
  Claim C1. Free-running inference should not end through the stop gate before the step
  count exceeds half the length of the input sequence. The gate of the source compares
  the counter with half of \<^verbatim>\<open>inputs.shape[0]\<close>, which is the batch size (the source itself
  names it so: \<^verbatim>\<open>B = inputs.size(0)\<close>, \<^verbatim>\<open># T = inputs.size(1)\<close>). For one sequence of ten
  encoder steps and a stop logit of 2 at every step (its sigmoid is above 0.7), the run
  ends through the gate with the counter at 1, after two decode steps and with nothing
  printed, although half the input length is 5.
\<close>

theorem inference_stops_after_half_batch:
  "map_option (map_sum id (\<lambda>rn. (run_t rn, length (run_outputs rn), stdout (run_dec rn))))
     (inference_steps (example_caps 2) (example_decoder 1 1) (const_tensor [1, 10, 2] 0) None)
   = Some (Inr (1, 2, []))"
proof -
  let ?X = "const_tensor [1, 10, 2] 0"
  let ?caps = "example_caps 2"
  have X: "shape ?X = [1, 10, 2]" by simp
  have X': "shape ?X = 1 # [10, 2]" by simp
  from example_inference_entry[OF X, of 1 1 2] obtain d1 m1 where
    e: "inference_entry ?caps (example_decoder 1 1) ?X = Inr (d1, m1)"
       "example_ready d1 10" "length (shape m1) = 2" "hd (shape m1) = 1"
       "r d1 = 1" "frame_dim d1 = 1" "stopnet d1 = stopnet (example_decoder 1 1)"
       "max_decoder_steps d1 = 1000000" "stdout d1 = []"
    by auto
  obtain rn1 m2 where
    s1: "inference_body ?caps ?X None (start_run d1) m1 = Inr (Continue rn1 m2)"
        "example_ready (run_dec rn1) 10" "length (run_outputs rn1) = 1" "run_t rn1 = 1"
        "length (shape m2) = 2" "hd (shape m2) = 1"
        "r (run_dec rn1) = 1" "frame_dim (run_dec rn1) = 1"
        "stopnet (run_dec rn1) = stopnet (example_decoder 1 1)"
        "max_decoder_steps (run_dec rn1) = 1000000" "stdout (run_dec rn1) = []"
    using example_inference_body[of "start_run d1" 10 m1 ?X 1 "[10, 2]" 2] e
    by (simp add: start_run_def Let_def appended_def)
  obtain rn2 where
    s2: "inference_body ?caps ?X None rn1 m2 = Inr (Break rn2)"
        "length (run_outputs rn2) = 2" "run_t rn2 = 1" "stdout (run_dec rn2) = []"
    using example_inference_body[of rn1 10 m2 ?X 1 "[10, 2]" 2] s1
    by (simp add: Let_def appended_def sigmoid_2_gt')
  have "inference_steps ?caps (example_decoder 1 1) ?X None = Some (Inr rn2)"
    using e(1) s1(1) s2(1)
    by (simp add: inference_steps_def inference_loop.simps[of _ _ _ "start_run d1"]
        inference_loop.simps[of _ _ _ rn1])
  then show ?thesis by (simp add: s2)
qed


section \<open>The single-step entry\<close>

text \<open>
  Claim C2. \<^verbatim>\<open>inference_step\<close> should return the sigmoid of the step's stop logit second
  and the step's attention weights third. The source unpacks the result of \<^verbatim>\<open>decode\<close>,
  which is \<^verbatim>\<open>(decoder_output, attention_weights, stop_token)\<close>, into the names
  \<^verbatim>\<open>decoder_output, stop_token, alignment\<close>. With attention weights \<open>[0, 0, 0]\<close> over
  three encoder steps and stop logit 2, it returns the sigmoid of the attention weights
  second and the raw stop logit third.
\<close>

theorem inference_step_returns_sigmoid_of_alignment:
  "map_sum id fst
     (inference_step (example_caps 2) (example_decoder 1 1) (const_tensor [1, 3, 2] 0) 0 None)
   = Inr (\<lparr>shape = [1, 1], elems = [2]\<rparr>,
          tsigmoid \<lparr>shape = [1, 3], elems = [0, 0, 0]\<rparr>,
          \<lparr>shape = [1, 1], elems = [2]\<rparr>)"
proof -
  let ?X = "const_tensor [1, 3, 2] 0"
  let ?d = "example_decoder 1 1"
  have X: "shape ?X = [1, 3, 2]" by simp
  obtain d1 where
    i: "init_states (example_caps 2) ?d ?X None False = Inr d1" "example_ready d1 3"
       "r d1 = 1" "frame_dim d1 = 1" "linear_projection d1 = linear_projection ?d"
       "stopnet d1 = stopnet ?d" "prenet d1 = prenet ?d" "training d1 = training ?d"
    using example_init_states[OF X, of ?d 2 None False]
    by (simp add: example_ready_def)
  have "decode (example_caps 2) d1 (const_tensor [Suc 0, 2] 0) =
     Inr ((const_tensor [1, min (nat (out_features (linear_projection d1)))
                              (nat (r d1 * frame_dim d1))] 2,
           const_tensor [1, 3] 0,
           const_tensor [1, nat (out_features (snd (stopnet d1)))] 2),
          example_after d1 3)"
    by (rule example_decode[OF i(2)]) (simp_all add: i)
  then show ?thesis
    using i(1)
    by (simp add: inference_step_def get_go_frame_def tsize_def norm_dim_def zeros_repeat_const
        prenet_call_def i const_tensor_def numeral_3_eq_3)
qed

section \<open>What a decode step reads and writes\<close>

lemma ebind_eq_Inr: "ebind m f = Inr y \<longleftrightarrow> (\<exists>x. m = Inr x \<and> f x = Inr y)"
  by (cases m) simp_all

lemma decode_raw_frame:
  assumes "decode_raw caps d memory = Inr (res, d1)"
  shows "d1 = d\<lparr>query := query d1, attention_rnn_cell_state := attention_rnn_cell_state d1,
            decoder_hidden := decoder_hidden d1, decoder_cell := decoder_cell d1,
            context_vec := context_vec d1, world := world d1\<rparr>"
  using assms
  by (auto simp: decode_raw_def ebind_eq_Inr split: prod.splits)

lemma stopnet_fwd_r [simp]: "stopnet_fwd caps (d\<lparr>r := n\<rparr>) = stopnet_fwd caps d"
  by (simp add: stopnet_fwd_def fun_eq_iff)

lemma decode_raw_set_r:
  "decode_raw caps (d\<lparr>r := n\<rparr>) memory
     = map_sum id (apsnd (\<lambda>d1. d1\<lparr>r := n\<rparr>)) (decode_raw caps d memory)"
  by (simp add: decode_raw_def ebind_def split: sum.splits prod.splits)

section \<open>Layers with a visible projection\<close>

lemma shape_ramp_tensor [simp]: "shape (ramp_tensor s) = s"
  by (simp add: ramp_tensor_def)

lemma ramp_caps_sel [simp]:
  "prenet_fwd ramp_caps = prenet_fwd (example_caps 0)"
  "lstm_fwd ramp_caps = lstm_fwd (example_caps 0)"
  "dropout_fwd ramp_caps = dropout_fwd (example_caps 0)"
  "linear_fwd ramp_caps = (\<lambda>lin x.
     Inr (ramp_tensor (take 1 (shape x) @ [nat (out_features lin)])))"
  "attn_preprocess_inputs ramp_caps = attn_preprocess_inputs (example_caps 0)"
  "attn_init_states ramp_caps = attn_init_states (example_caps 0)"
  "attn_init_win_idx ramp_caps = attn_init_win_idx (example_caps 0)"
  "attn_fwd ramp_caps = attn_fwd (example_caps 0)"
  "attn_attention_weights ramp_caps = attn_attention_weights (example_caps 0)"
  by (simp_all add: ramp_caps_def)

lemma ramp_decode_raw:
  assumes "example_ready d T" "length (shape memory) = 2" "hd (shape memory) = 1"
  shows "decode_raw ramp_caps d memory =
     Inr ((ramp_tensor [1, nat (out_features (linear_projection d))],
           const_tensor [1, T] 0,
           ramp_tensor [1, nat (out_features (snd (stopnet d)))]),
          example_after d T)"
proof -
  from assms(1) obtain c q cs x p m h dc where
    f: "context_vec d = Some c" "length (shape c) = 2" "hd (shape c) = 1"
       "query d = Some q" "attention_rnn_cell_state d = Some cs"
       "inputs d = Some x" "shape x = [1, T, 2]"
       "processed_inputs d = Some p" "mask d = Some m"
       "decoder_hidden d = Some h" "decoder_cell d = Some dc"
    by (auto simp: example_ready_def split: option.splits)
  from f(2,3) obtain kc where c: "shape c = [1, kc]"
    by (auto elim: rank2_shape)
  from assms(2,3) obtain km where m: "shape memory = [1, km]"
    by (auto elim: rank2_shape)
  show ?thesis
    by (simp add: decode_raw_def f c m attr_def stopnet_fwd_def detach_def cat_rank2
        example_after_def)
qed

lemma slice_last_axis_stop:
  assumes i: "Suc i = length (shape t)"
    and wf: "length (elems t) = prod_list (shape t)"
  shows "\<exists>t'. slice_axis t i None (Some k) = Inr t'
           \<and> shape t' = butlast (shape t) @ [slice_bound (last (shape t)) k]
           \<and> rows_of t' = map (take (slice_bound (last (shape t)) k)) (rows_of t)"
proof -
  have sr: "slice_range (last (shape t)) None (Some k) = (0, slice_bound (last (shape t)) k)"
    by (simp add: slice_range_def)
  from slice_last_axis_rows[OF i wf sr] show ?thesis by simp
qed

lemma rows_of_ramp_row: "rows_of (ramp_tensor [Suc 0, n]) = [map real [0..<n]]"
  by (simp add: rows_of_def ramp_tensor_def chunks_def)

lemma example_ready_set_r [simp]: "example_ready (set_r d n) T = example_ready d T"
  by (simp add: example_ready_def set_r_def)

lemma set_r_sel [simp]:
  "r (set_r d n) = n"
  "frame_dim (set_r d n) = frame_dim d"
  "linear_projection (set_r d n) = linear_projection d"
  "stopnet (set_r d n) = stopnet d"
  by (simp_all add: set_r_def)

lemma slice_ramp_row:
  "slice_axis (ramp_tensor [Suc 0, n]) (Suc 0) None (Some k)
     = Inr \<lparr>shape = [Suc 0, slice_bound n k], elems = map real [0..<slice_bound n k]\<rparr>"
  by (simp add: slice_axis_def slice_range_def chunks_def ramp_tensor_def Let_def
      slice_bound_le take_map)

section \<open>Changing the reduction factor\<close>

text \<open>
  Claim C7. For every \<open>new_r\<close>, \<^verbatim>\<open>set_r(new_r)\<close> changes the field \<open>r\<close> and nothing else: the
  linear projection and every other layer keep the shapes they were built with (the
  projection is \<open>frame_dim * r_init\<close> wide), and a decode step afterwards computes the same
  full projection, attention weights and stop logit as it would have before, errors
  included. Of each row of that projection the step returns what Python's slice
  \<^verbatim>\<open>[:, :new_r * frame_dim]\<close> keeps: the first \<open>new_r * frame_dim\<close> values when that
  number lies between 0 and the row's width, the whole row when it is larger, and all
  but the last \<open>- new_r * frame_dim\<close> values when it is negative.
\<close>

theorem set_r_changes_only_r:
  "set_r d new_r = d\<lparr>r := new_r\<rparr>
     \<and> linear_projection (set_r d new_r) = linear_projection d
     \<and> stopnet (set_r d new_r) = stopnet d
     \<and> prenet (set_r d new_r) = prenet d
     \<and> attention_rnn (set_r d new_r) = attention_rnn d
     \<and> decoder_rnn (set_r d new_r) = decoder_rnn d
     \<and> attention (set_r d new_r) = attention d
     \<and> r_init (set_r d new_r) = r_init d
     \<and> frame_dim (set_r d new_r) = frame_dim d
     \<and> out_features (linear_projection (set_r (Decoder_init w input_dim fdim rinit a_type a_win
           a_norm p_type p_drop f_attn t_agent f_mask l_attn a_K sep_stop spk_dim) new_r))
         = fdim * rinit
     \<and> decode_raw caps (set_r d new_r) memory
         = map_sum id (apsnd (\<lambda>d1. set_r d1 new_r)) (decode_raw caps d memory)
     \<and> (decode_raw caps d memory = Inr ((full, al, st), d1)
          \<and> length (shape full) = 2 \<and> length (elems full) = prod_list (shape full)
        \<longrightarrow> (\<exists>out. decode caps (set_r d new_r) memory = Inr ((out, al, st), set_r d1 new_r)
               \<and> rows_of out
                   = map (take (if new_r * frame_dim d < 0
                                then nat (int (last (shape full)) + new_r * frame_dim d)
                                else nat (new_r * frame_dim d))) (rows_of full)
               \<and> shape out
                   = butlast (shape full)
                     @ [if new_r * frame_dim d < 0
                        then nat (int (last (shape full)) + new_r * frame_dim d)
                        else min (last (shape full)) (nat (new_r * frame_dim d))]))"
proof -
  have raw': "decode_raw caps (set_r d new_r) memory
      = map_sum id (apsnd (\<lambda>d1. set_r d1 new_r)) (decode_raw caps d memory)"
    by (simp add: set_r_def decode_raw_set_r)
  have dec: "\<exists>out. decode caps (set_r d new_r) memory = Inr ((out, al, st), set_r d1 new_r)
               \<and> rows_of out
                   = map (take (if new_r * frame_dim d < 0
                                then nat (int (last (shape full)) + new_r * frame_dim d)
                                else nat (new_r * frame_dim d))) (rows_of full)
               \<and> shape out
                   = butlast (shape full)
                     @ [if new_r * frame_dim d < 0
                        then nat (int (last (shape full)) + new_r * frame_dim d)
                        else min (last (shape full)) (nat (new_r * frame_dim d))]"
    if raw: "decode_raw caps d memory = Inr ((full, al, st), d1)"
      and rank: "length (shape full) = 2"
      and wf: "length (elems full) = prod_list (shape full)"
  proof -
    have i: "Suc 1 = length (shape full)" using rank by simp
    have ne: "shape full \<noteq> []" using rank by auto
    from slice_last_axis_stop[OF i wf, of "new_r * frame_dim d"] obtain out where
      out: "slice_axis full 1 None (Some (new_r * frame_dim d)) = Inr out"
        "shape out = butlast (shape full) @ [slice_bound (last (shape full)) (new_r * frame_dim d)]"
        "rows_of out = map (take (slice_bound (last (shape full)) (new_r * frame_dim d)))
           (rows_of full)"
      by blast
    have d: "decode caps (set_r d new_r) memory = Inr ((out, al, st), set_r d1 new_r)"
      using out(1) by (simp add: decode_def raw' raw; simp add: set_r_def)
    have "map (take (slice_bound (last (shape full)) (new_r * frame_dim d))) (rows_of full)
        = map (take (if new_r * frame_dim d < 0
                     then nat (int (last (shape full)) + new_r * frame_dim d)
                     else nat (new_r * frame_dim d))) (rows_of full)"
      using rows_of_length[OF ne wf] by (intro map_cong) (auto simp: slice_bound_def min_def)
    with d out show ?thesis by (auto simp: slice_bound_def)
  qed
  show ?thesis
    using raw' dec by (simp add: set_r_def Decoder_init_def)
qed


theorem set_r_changes_only_r_witness:
  "\<exists>out. decode ramp_caps (set_r (example_started 2 2 3) 1) (const_tensor [1, 2] 0)
       = Inr ((out, const_tensor [1, 3] 0, ramp_tensor [1, 1]),
              set_r (example_after (example_started 2 2 3) 3) 1)
     \<and> rows_of out = [[0, 1]] \<and> shape out = [1, 2]"
proof -
  have raw: "decode_raw ramp_caps (example_started 2 2 3) (const_tensor [1, 2] 0)
      = Inr ((ramp_tensor [1, 4], const_tensor [1, 3] 0, ramp_tensor [1, 1]),
             example_after (example_started 2 2 3) 3)"
    using ramp_decode_raw[of "example_started 2 2 3" 3 "const_tensor [1, 2] 0"]
    by simp
  have rows: "rows_of (ramp_tensor [1, 4]) = [[0, 1, 2, 3]]"
    using rows_of_ramp_row[of 4] by (simp add: upt_rec)
  have rk: "length (shape (ramp_tensor [1, 4])) = 2" by simp
  have wf: "length (elems (ramp_tensor [1, 4])) = prod_list (shape (ramp_tensor [1, 4]))"
    by (simp add: ramp_tensor_def)
  have "\<exists>out. decode ramp_caps (set_r (example_started 2 2 3) 1) (const_tensor [1, 2] 0)
       = Inr ((out, const_tensor [1, 3] 0, ramp_tensor [1, 1]),
              set_r (example_after (example_started 2 2 3) 3) 1)
     \<and> rows_of out = map (take 2) (rows_of (ramp_tensor [1, 4]))
     \<and> shape out = [1, 2]"
    using set_r_changes_only_r
      [where w = "()" and input_dim = 0 and fdim = 0 and rinit = 0 and a_type = "[]"
         and a_win = False and a_norm = "[]" and p_type = "[]" and p_drop = False
         and f_attn = False and t_agent = False and f_mask = False and l_attn = False
         and a_K = 0 and sep_stop = False and spk_dim = 0
         and d = "example_started 2 2 3" and new_r = 1 and caps = ramp_caps
         and memory = "const_tensor [1, 2] 0" and full = "ramp_tensor [1, 4]"
         and al = "const_tensor [1, 3] 0" and st = "ramp_tensor [1, 1]"
         and ?d1.0 = "example_after (example_started 2 2 3) 3"]
      raw rk wf
    by (elim conjE) simp
  then show ?thesis
    using rows by simp
qed

text \<open>
  The projection is two values wide (\<open>frame_dim = 1\<close>, \<open>r_init = 2\<close>). After \<^verbatim>\<open>set_r(3)\<close> a
  decode step returns both of them, \<open>0\<close> and \<open>1\<close>: there are no first
  \<open>frame_dim * new_r = 3\<close> values to keep.
\<close>

theorem set_r_above_r_init_keeps_two_of_three:
  "map_sum id (rows_of \<circ> fst \<circ> fst)
     (decode ramp_caps (set_r (example_started 1 2 3) 3) (const_tensor [1, 2] 0))
     = Inr [[0, 1]]
   \<and> frame_dim (set_r (example_started 1 2 3) 3) * 3 = 3"
proof -
  have raw: "decode_raw ramp_caps (set_r (example_started 1 2 3) 3) (const_tensor [1, 2] 0)
      = Inr ((ramp_tensor [1, 2], const_tensor [1, 3] 0, ramp_tensor [1, 1]),
             example_after (set_r (example_started 1 2 3) 3) 3)"
    using ramp_decode_raw[of "set_r (example_started 1 2 3) 3" 3 "const_tensor [1, 2] 0"]
    by simp
  show ?thesis
    using raw
    by (simp add: decode_def slice_ramp_row slice_bound_def rows_of_def chunks_def
        upt_rec)
qed

section \<open>The inference loops, one pass at a time\<close>

lemma decode_frame:
  assumes "decode caps d memory = Inr (res, d1)"
  shows "d1 = d\<lparr>query := query d1, attention_rnn_cell_state := attention_rnn_cell_state d1,
            decoder_hidden := decoder_hidden d1, decoder_cell := decoder_cell d1,
            context_vec := context_vec d1, world := world d1\<rparr>"
  using assms
  by (auto simp: decode_def ebind_eq_Inr split: prod.splits dest: decode_raw_frame)

lemma decode_keeps:
  assumes "decode caps d memory = Inr (res, d1)"
  shows "memory_truncated d1 = memory_truncated d" "max_decoder_steps d1 = max_decoder_steps d"
    "stdout d1 = stdout d" "r d1 = r d" "frame_dim d1 = frame_dim d"
    "gate_threshold d1 = gate_threshold d"
  by (subst decode_frame[OF assms], simp)+

lemma zeros_repeat_Inr:
  "zeros_repeat b n = Inr t \<Longrightarrow> t = \<lparr>shape = [nat b, nat n], elems = replicate (nat b * nat n) 0\<rparr>"
  by (auto simp: zeros_repeat_def split: if_splits)

lemma init_states_keep:
  assumes "init_states caps d X m True = Inr d1"
  shows "d1 = d\<lparr>inputs := inputs d1, processed_inputs := processed_inputs d1, mask := mask d1,
            world := world d1\<rparr>"
  using assms
  by (auto simp: init_states_def ebind_eq_Inr split: prod.splits)

lemma init_states_reset:
  assumes "init_states caps d X m False = Inr d1"
  shows "\<exists>B. tsize X 0 = Inr B
     \<and> d1 = d\<lparr>query := Some \<lparr>shape = [B, nat (query_dim d)],
                              elems = replicate (B * nat (query_dim d)) 0\<rparr>,
              attention_rnn_cell_state := Some \<lparr>shape = [B, nat (query_dim d)],
                              elems = replicate (B * nat (query_dim d)) 0\<rparr>,
              decoder_hidden := Some \<lparr>shape = [B, nat (decoder_rnn_dim d)],
                              elems = replicate (B * nat (decoder_rnn_dim d)) 0\<rparr>,
              decoder_cell := Some \<lparr>shape = [B, nat (decoder_rnn_dim d)],
                              elems = replicate (B * nat (decoder_rnn_dim d)) 0\<rparr>,
              context_vec := Some \<lparr>shape = [B, nat (encoder_embedding_dim d)],
                              elems = replicate (B * nat (encoder_embedding_dim d)) 0\<rparr>,
              inputs := inputs d1, processed_inputs := processed_inputs d1, mask := mask d1,
              world := world d1\<rparr>"
  using assms
  by (auto simp: init_states_def ebind_eq_Inr split: prod.splits dest!: zeros_repeat_Inr)


lemma truncated_decode_Inr:
  assumes "truncated_decode caps d = Inr ((out, al, st, outp), d1)"
  shows "\<exists>mem w st0. prenet_call caps d (memory_truncated d) = Inr (mem, w)
     \<and> decode caps (d\<lparr>world := w\<rparr>) mem = Inr ((out, al, st0), d1)
     \<and> st = tsigmoid st0 \<and> squeeze1 out = Inr outp"
  using assms
  by (auto simp: truncated_decode_def ebind_eq_Inr split: prod.splits)

lemma inference_decode_Inr:
  assumes "inference_decode caps se d memory = Inr ((out, al, st, outp), d1)"
  shows "\<exists>mem w mem1 st0. prenet_fwd caps (prenet d) (training d) (world d) memory = Inr (mem, w)
     \<and> (case se of None \<Rightarrow> Inr mem | Some e \<Rightarrow> cat mem e (- 1)) = Inr mem1
     \<and> decode caps (d\<lparr>world := w\<rparr>) mem1 = Inr ((out, al, st0), d1)
     \<and> st = tsigmoid st0 \<and> squeeze1 out = Inr outp"
  using assms
  by (auto simp: inference_decode_def ebind_eq_Inr split: prod.splits)

lemma truncated_decode_keeps:
  assumes "truncated_decode caps d = Inr (res, d1)"
  shows "memory_truncated d1 = memory_truncated d" "max_decoder_steps d1 = max_decoder_steps d"
    "stdout d1 = stdout d" "r d1 = r d" "frame_dim d1 = frame_dim d"
    "gate_threshold d1 = gate_threshold d"
  using assms
  by (auto simp: truncated_decode_def ebind_eq_Inr split: prod.splits dest: decode_keeps)


lemma truncated_body_Inr:
  assumes "truncated_body caps rn = Inr s"
  obtains out al st outp d1 fire where
    "truncated_decode caps (run_dec rn) = Inr ((out, al, st, outp), d1)"
    "truncated_gate st = Inr fire"
    "s = (if fire then TBreak (appended rn d1 outp st al)
          else if int (length (run_outputs rn @ [outp])) = max_decoder_steps d1
            then TBreak (appended rn (d1\<lparr>stdout := stdout d1 @ [max_steps_notice]\<rparr>)
                           outp st al)
          else TContinue ((appended rn (d1\<lparr>memory_truncated := Some out\<rparr>) outp st al)
                             \<lparr>run_t := run_t rn + 1\<rparr>))"
proof (cases "truncated_decode caps (run_dec rn)")
  case (Inl e)
  with assms show ?thesis by (simp add: truncated_body_def)
next
  case (Inr p)
  obtain out al st outp d1 where p: "p = ((out, al, st, outp), d1)"
    by (metis prod.exhaust)
  show ?thesis
  proof (cases "truncated_gate st")
    case (Inl e)
    with assms Inr p show ?thesis by (simp add: truncated_body_def)
  next
    case g: (Inr fire)
    with assms Inr p have "s = (if fire then TBreak (appended rn d1 outp st al)
          else if int (length (run_outputs rn @ [outp])) = max_decoder_steps d1
            then TBreak (appended rn (d1\<lparr>stdout := stdout d1 @ [max_steps_notice]\<rparr>)
                           outp st al)
          else TContinue ((appended rn (d1\<lparr>memory_truncated := Some out\<rparr>) outp st al)
                             \<lparr>run_t := run_t rn + 1\<rparr>))"
      by (simp add: truncated_body_def split: if_splits)
    with Inr p g show ?thesis by (rule_tac that) simp_all
  qed
qed

lemma inference_body_Inr:
  assumes "inference_body caps X se rn memory = Inr s"
  obtains out al st outp d1 fire where
    "inference_decode caps se (run_dec rn) memory = Inr ((out, al, st, outp), d1)"
    "inference_gate X (run_t rn) st = Inr fire"
    "if fire then s = Break (appended rn d1 outp st al)
     else if int (length (run_outputs rn @ [outp])) = max_decoder_steps d1
       then s = Break (appended rn (d1\<lparr>stdout := stdout d1 @ [max_steps_notice]\<rparr>)
                         outp st al)
     else \<exists>m1. update_memory d1 out = Inr m1
            \<and> s = Continue ((appended rn d1 outp st al)\<lparr>run_t := run_t rn + 1\<rparr>) m1"
proof (cases "inference_decode caps se (run_dec rn) memory")
  case (Inl e)
  with assms show ?thesis by (simp add: inference_body_def)
next
  case (Inr p)
  obtain out al st outp d1 where p: "p = ((out, al, st, outp), d1)"
    by (metis prod.exhaust)
  show ?thesis
  proof (cases "inference_gate X (run_t rn) st")
    case (Inl e)
    with assms Inr p show ?thesis by (simp add: inference_body_def)
  next
    case g: (Inr fire)
    with assms Inr p have "if fire then s = Break (appended rn d1 outp st al)
     else if int (length (run_outputs rn @ [outp])) = max_decoder_steps d1
       then s = Break (appended rn (d1\<lparr>stdout := stdout d1 @ [max_steps_notice]\<rparr>)
                         outp st al)
     else \<exists>m1. update_memory d1 out = Inr m1
            \<and> s = Continue ((appended rn d1 outp st al)\<lparr>run_t := run_t rn + 1\<rparr>) m1"
      by (auto simp: inference_body_def ebind_eq_Inr split: if_splits)
    with Inr p g show ?thesis by (rule_tac that) simp_all
  qed
qed

lemma truncated_loop_memory:
  assumes "truncated_loop caps rn = Some y"
  shows "memory_truncated (run_dec rn) \<noteq> None
     \<Longrightarrow> y = Inr rn' \<Longrightarrow> memory_truncated (run_dec rn') \<noteq> None"
  using assms
proof (induction arbitrary: rn' rule: truncated_loop.raw_induct)
  case (1 loop caps rn y)
  note IH = 1(1) and run = 1(2) and mem = 1(3) and y = 1(4)
  note all = 1(2-)
  show ?case
  proof (cases "truncated_body caps rn")
    case (Inl e)
    with all show ?thesis by simp
  next
    case (Inr s)
    from Inr obtain out al st outp d1 fire where
      td: "truncated_decode caps (run_dec rn) = Inr ((out, al, st, outp), d1)"
      and s: "s = (if fire then TBreak (appended rn d1 outp st al)
            else if int (length (run_outputs rn @ [outp])) = max_decoder_steps d1
              then TBreak (appended rn (d1\<lparr>stdout := stdout d1 @ [max_steps_notice]\<rparr>)
                             outp st al)
            else TContinue ((appended rn (d1\<lparr>memory_truncated := Some out\<rparr>) outp st al)
                               \<lparr>run_t := run_t rn + 1\<rparr>))"
      by (rule truncated_body_Inr)
    have m: "memory_truncated d1 \<noteq> None"
      using truncated_decode_keeps(1)[OF td] all by simp
    show ?thesis
    proof (cases s)
      case (TBreak rn1)
      with s m have "memory_truncated (run_dec rn1) \<noteq> None"
        by (auto simp: appended_def split: if_splits)
      with all Inr TBreak show ?thesis by simp
    next
      case (TContinue rn1)
      from TContinue s have m1: "memory_truncated (run_dec rn1) \<noteq> None"
        by (auto simp: appended_def split: if_splits)
      from run Inr TContinue have lp: "loop caps rn1 = Some y" by simp
      have "truncated_loop caps rn = truncated_loop caps rn1"
        by (subst truncated_loop.simps) (simp add: Inr TContinue)
      with all have tl: "truncated_loop caps rn1 = Some y" by simp
      from all have y: "y = Inr rn'" by simp
      show ?thesis by (rule IH[OF lp m1 y tl])
    qed
  qed
qed (rule assms)

section \<open>What the loops feed back\<close>

lemma ramp_decode:
  assumes "example_ready d T" "length (shape memory) = 2" "hd (shape memory) = 1"
  shows "decode ramp_caps d memory =
     Inr ((\<lparr>shape = [1, slice_bound (nat (out_features (linear_projection d)))
                                   (r d * frame_dim d)],
            elems = map real [0..<slice_bound (nat (out_features (linear_projection d)))
                                    (r d * frame_dim d)]\<rparr>,
           const_tensor [1, T] 0,
           ramp_tensor [1, nat (out_features (snd (stopnet d)))]),
          example_after d T)"
  using ramp_decode_raw[OF assms]
  by (simp add: decode_def slice_ramp_row)

lemma ramp_gate:
  "tensor_bool (tensor_gt (tsigmoid (ramp_tensor [Suc 0, Suc 0])) c) = Inr (c < 1 / 2)"
  by (simp add: tensor_bool_def tensor_gt_def tsigmoid_def ramp_tensor_def sigmoid_0)

lemma ramp_truncated_body:
  "\<exists>rn1. truncated_body ramp_caps
       (start_run ((example_started 1 2 3)\<lparr>memory_truncated := Some (const_tensor [1, 2] 0)\<rparr>))
     = Inr (TContinue rn1)"
  by (simp add: truncated_body_def truncated_decode_def prenet_call_def start_run_def
      ramp_decode[where T = 3] squeeze1_rank2 slice_bound_def truncated_gate_def ramp_gate)

lemma ramp_inference_body:
  "\<exists>rn1 m1. inference_body ramp_caps (const_tensor [1, 3, 2] 0) None
       (start_run (example_started 1 2 3)) (const_tensor [1, 1] 0)
     = Inr (Continue rn1 m1)"
  by (simp add: inference_body_def inference_decode_def start_run_def
      ramp_decode[where T = 3] squeeze1_rank2 slice_bound_def inference_gate_def ramp_gate
      update_memory_def slice_axis_def slice_range_def Let_def)

text \<open>
  Claim C9. When a pass of the loop of \<^verbatim>\<open>inference_truncated\<close> goes on to another pass,
  the frame it stores in \<^verbatim>\<open>memory_truncated\<close>, which the next pass hands to the prenet,
  is the output of \<^verbatim>\<open>decode\<close> itself. When a pass of the loop of \<^verbatim>\<open>inference\<close> goes on,
  the memory of the next pass is \<^verbatim>\<open>_update_memory\<close> of the output of \<^verbatim>\<open>decode\<close>: for an
  output of width \<open>frame_dim * r\<close> with \<open>r \<ge> 1\<close>, its last \<open>frame_dim\<close> columns.
\<close>

theorem truncated_feeds_back_whole_output:
  "(truncated_body caps rn = Inr (TContinue rn1) \<longrightarrow>
      (\<exists>mem w out al st d1.
          prenet_call caps (run_dec rn) (memory_truncated (run_dec rn)) = Inr (mem, w)
        \<and> decode caps ((run_dec rn)\<lparr>world := w\<rparr>) mem = Inr ((out, al, st), d1)
        \<and> memory_truncated (run_dec rn1) = Some out
        \<and> prenet_call caps (run_dec rn1) (memory_truncated (run_dec rn1))
            = prenet_fwd caps (prenet (run_dec rn1)) (training (run_dec rn1))
                (world (run_dec rn1)) out))
   \<and> (inference_body caps X se rn2 memory = Inr (Continue rn3 memory1) \<longrightarrow>
      (\<exists>mem w mem1 out al st d1.
          prenet_fwd caps (prenet (run_dec rn2)) (training (run_dec rn2)) (world (run_dec rn2))
            memory = Inr (mem, w)
        \<and> (case se of None \<Rightarrow> Inr mem | Some e \<Rightarrow> cat mem e (- 1)) = Inr mem1
        \<and> decode caps ((run_dec rn2)\<lparr>world := w\<rparr>) mem1 = Inr ((out, al, st), d1)
        \<and> update_memory d1 out = Inr memory1
        \<and> (1 \<le> r d1 \<and> 0 \<le> frame_dim d1 \<and> length (shape out) = 2
             \<and> last (shape out) = nat (frame_dim d1 * r d1)
             \<and> length (elems out) = prod_list (shape out)
           \<longrightarrow> shape memory1 = butlast (shape out) @ [nat (frame_dim d1)]
             \<and> rows_of memory1
                 = map (\<lambda>row. drop (length row - nat (frame_dim d1)) row) (rows_of out))))"
proof (intro conjI impI)
  assume h: "truncated_body caps rn = Inr (TContinue rn1)"
  from h obtain out al st outp d1 fire where
    td: "truncated_decode caps (run_dec rn) = Inr ((out, al, st, outp), d1)"
    and s: "TContinue rn1 = (if fire then TBreak (appended rn d1 outp st al)
          else if int (length (run_outputs rn @ [outp])) = max_decoder_steps d1
            then TBreak (appended rn (d1\<lparr>stdout := stdout d1 @ [max_steps_notice]\<rparr>)
                           outp st al)
          else TContinue ((appended rn (d1\<lparr>memory_truncated := Some out\<rparr>) outp st al)
                             \<lparr>run_t := run_t rn + 1\<rparr>))"
    by (rule truncated_body_Inr)
  from s have m: "memory_truncated (run_dec rn1) = Some out"
    by (auto simp: appended_def split: if_splits)
  from truncated_decode_Inr[OF td] obtain mem w st0 where
    "prenet_call caps (run_dec rn) (memory_truncated (run_dec rn)) = Inr (mem, w)"
    "decode caps ((run_dec rn)\<lparr>world := w\<rparr>) mem = Inr ((out, al, st0), d1)"
    by blast
  with m show "\<exists>mem w out al st d1.
          prenet_call caps (run_dec rn) (memory_truncated (run_dec rn)) = Inr (mem, w)
        \<and> decode caps ((run_dec rn)\<lparr>world := w\<rparr>) mem = Inr ((out, al, st), d1)
        \<and> memory_truncated (run_dec rn1) = Some out
        \<and> prenet_call caps (run_dec rn1) (memory_truncated (run_dec rn1))
            = prenet_fwd caps (prenet (run_dec rn1)) (training (run_dec rn1))
                (world (run_dec rn1)) out"
    by (auto simp: prenet_call_def)
next
  assume h: "inference_body caps X se rn2 memory = Inr (Continue rn3 memory1)"
  from h obtain out al st outp d1 fire where
    td: "inference_decode caps se (run_dec rn2) memory = Inr ((out, al, st, outp), d1)"
    and s: "if fire then Continue rn3 memory1 = Break (appended rn2 d1 outp st al)
     else if int (length (run_outputs rn2 @ [outp])) = max_decoder_steps d1
       then Continue rn3 memory1
              = Break (appended rn2 (d1\<lparr>stdout := stdout d1 @ [max_steps_notice]\<rparr>)
                         outp st al)
     else \<exists>m1. update_memory d1 out = Inr m1
            \<and> Continue rn3 memory1
                = Continue ((appended rn2 d1 outp st al)\<lparr>run_t := run_t rn2 + 1\<rparr>) m1"
    by (rule inference_body_Inr)
  from s have um: "update_memory d1 out = Inr memory1"
    by (auto split: if_splits)
  from inference_decode_Inr[OF td] obtain mem w mem1 st0 where
    dec: "prenet_fwd caps (prenet (run_dec rn2)) (training (run_dec rn2)) (world (run_dec rn2))
            memory = Inr (mem, w)"
      "(case se of None \<Rightarrow> Inr mem | Some e \<Rightarrow> cat mem e (- 1)) = Inr mem1"
      "decode caps ((run_dec rn2)\<lparr>world := w\<rparr>) mem1 = Inr ((out, al, st0), d1)"
    by blast
  have rows: "shape memory1 = butlast (shape out) @ [nat (frame_dim d1)]
             \<and> rows_of memory1
                 = map (\<lambda>row. drop (length row - nat (frame_dim d1)) row) (rows_of out)"
    if "1 \<le> r d1" "0 \<le> frame_dim d1" "length (shape out) = 2"
      "last (shape out) = nat (frame_dim d1 * r d1)"
      "length (elems out) = prod_list (shape out)"
    using update_memory_rows[OF that(1,2) _ that(4,5)] that(3) um by auto
  from dec um rows show "\<exists>mem w mem1 out al st d1.
          prenet_fwd caps (prenet (run_dec rn2)) (training (run_dec rn2)) (world (run_dec rn2))
            memory = Inr (mem, w)
        \<and> (case se of None \<Rightarrow> Inr mem | Some e \<Rightarrow> cat mem e (- 1)) = Inr mem1
        \<and> decode caps ((run_dec rn2)\<lparr>world := w\<rparr>) mem1 = Inr ((out, al, st), d1)
        \<and> update_memory d1 out = Inr memory1
        \<and> (1 \<le> r d1 \<and> 0 \<le> frame_dim d1 \<and> length (shape out) = 2
             \<and> last (shape out) = nat (frame_dim d1 * r d1)
             \<and> length (elems out) = prod_list (shape out)
           \<longrightarrow> shape memory1 = butlast (shape out) @ [nat (frame_dim d1)]
             \<and> rows_of memory1
                 = map (\<lambda>row. drop (length row - nat (frame_dim d1)) row) (rows_of out))"
    by blast
qed


theorem truncated_feeds_back_whole_output_witness:
  "(\<exists>rn1. truncated_body ramp_caps
       (start_run ((example_started 1 2 3)\<lparr>memory_truncated := Some (const_tensor [1, 2] 0)\<rparr>))
       = Inr (TContinue rn1)
     \<and> map_option rows_of (memory_truncated (run_dec rn1)) = Some [[0, 1]])
   \<and> (\<exists>rn1 m1. inference_body ramp_caps (const_tensor [1, 3, 2] 0) None
       (start_run (example_started 1 2 3)) (const_tensor [1, 1] 0)
       = Inr (Continue rn1 m1)
     \<and> rows_of m1 = [[1]])"
proof -
  let ?dt = "(example_started 1 2 3)\<lparr>memory_truncated := Some (const_tensor [1, 2] 0)\<rparr>"
  let ?di = "example_started 1 2 3"
  let ?X = "const_tensor [1, 3, 2] 0 :: real tensor"
  let ?out = "\<lparr>shape = [1, 2], elems = [0, 1 :: real]\<rparr>"
  from ramp_truncated_body obtain rn1 where
    t: "truncated_body ramp_caps (start_run ?dt) = Inr (TContinue rn1)" by blast
  from ramp_inference_body obtain rn3 m1 where
    i: "inference_body ramp_caps ?X None (start_run ?di) (const_tensor [1, 1] 0)
          = Inr (Continue rn3 m1)" by blast
  have rows: "rows_of ?out = [[0, 1]]"
    by (simp add: rows_of_def chunks_def)
  have dect: "decode ramp_caps (?dt\<lparr>world := w\<rparr>) (const_tensor [1, 2] 0)
      = Inr ((?out, const_tensor [1, 3] 0, ramp_tensor [1, 1]),
             example_after (?dt\<lparr>world := w\<rparr>) 3)" for w
    using ramp_decode[of "?dt\<lparr>world := w\<rparr>" 3 "const_tensor [1, 2] 0"]
    by (simp add: slice_bound_def upt_rec)
  have deci: "decode ramp_caps (?di\<lparr>world := w\<rparr>) (const_tensor [1, 2] 0)
      = Inr ((?out, const_tensor [1, 3] 0, ramp_tensor [1, 1]),
             example_after (?di\<lparr>world := w\<rparr>) 3)" for w
    using ramp_decode[of "?di\<lparr>world := w\<rparr>" 3 "const_tensor [1, 2] 0"]
    by (simp add: slice_bound_def upt_rec)
  note inst = truncated_feeds_back_whole_output
    [of ramp_caps "start_run ?dt" rn1 ?X None "start_run ?di" "const_tensor [1, 1] 0" rn3 m1]
  from inst t obtain mem w out al st d1 where
    a: "prenet_call ramp_caps (run_dec (start_run ?dt)) (memory_truncated (run_dec (start_run ?dt)))
          = Inr (mem, w)"
      "decode ramp_caps ((run_dec (start_run ?dt))\<lparr>world := w\<rparr>) mem = Inr ((out, al, st), d1)"
      "memory_truncated (run_dec rn1) = Some out"
    by blast
  from a(1) have "mem = const_tensor [1, 2] 0"
    by (auto simp: prenet_call_def start_run_def)
  with a(2) dect have "out = ?out"
    by (simp add: start_run_def)
  with a(3) rows have first: "map_option rows_of (memory_truncated (run_dec rn1)) = Some [[0, 1]]"
    by simp
  from inst i obtain mem' w' mem1 out' al' st' d1' where
    b: "prenet_fwd ramp_caps (prenet (run_dec (start_run ?di))) (training (run_dec (start_run ?di)))
          (world (run_dec (start_run ?di))) (const_tensor [1, 1] 0) = Inr (mem', w')"
      "(case None :: real tensor option of None \<Rightarrow> Inr mem' | Some e \<Rightarrow> cat mem' e (- 1))
          = Inr mem1"
      "decode ramp_caps ((run_dec (start_run ?di))\<lparr>world := w'\<rparr>) mem1
          = Inr ((out', al', st'), d1')"
      "1 \<le> r d1' \<and> 0 \<le> frame_dim d1' \<and> length (shape out') = 2
         \<and> last (shape out') = nat (frame_dim d1' * r d1')
         \<and> length (elems out') = prod_list (shape out')
       \<longrightarrow> shape m1 = butlast (shape out') @ [nat (frame_dim d1')]
         \<and> rows_of m1 = map (\<lambda>row. drop (length row - nat (frame_dim d1')) row) (rows_of out')"
    by blast
  from b(1,2) have "mem1 = const_tensor [1, 2] 0"
    by auto
  with b(3) deci have o: "out' = ?out" "d1' = example_after (?di\<lparr>world := w'\<rparr>) 3"
    by (simp_all add: start_run_def)
  from b(4) have "rows_of m1 = map (\<lambda>row. drop (length row - 1) row) (rows_of ?out)"
    unfolding o by simp
  with rows have second: "rows_of m1 = [[1]]" by simp
  from t first i second show ?thesis by blast
qed

section \<open>Truncated inference keeps its state\<close>

lemma get_go_frame_Inr:
  "get_go_frame d X = Inr g \<Longrightarrow>
   \<exists>B. tsize X 0 = Inr B
     \<and> g = \<lparr>shape = [B, nat (frame_dim d * r d)],
            elems = replicate (B * nat (frame_dim d * r d)) 0\<rparr>"
  by (auto simp: get_go_frame_def ebind_eq_Inr dest!: zeros_repeat_Inr)

lemma finish_run_dec: "finish_run rn = Inr (res, d) \<Longrightarrow> d = run_dec rn"
  by (auto simp: finish_run_def ebind_eq_Inr split: prod.splits)

lemma init_states_memory:
  assumes "init_states caps d X m k = Inr d1"
  shows "memory_truncated d1 = memory_truncated d"
  using assms
  by (cases k) (auto simp: init_states_def ebind_eq_Inr split: prod.splits)

lemma truncated_entry_memory:
  assumes "truncated_entry caps d X = Inr d1"
  shows "memory_truncated d1 \<noteq> None"
  using assms
  by (cases "memory_truncated d")
     (auto simp: truncated_entry_def ebind_eq_Inr dest!: init_states_memory)

lemma inference_truncated_memory:
  assumes "inference_truncated caps d X = Some (Inr (res, d2))"
  shows "memory_truncated d2 \<noteq> None"
proof -
  from assms obtain y where y: "truncated_steps caps d X = Some y" "ebind y finish_run = Inr (res, d2)"
    by (auto simp: inference_truncated_def)
  from y(2) obtain rn where rn: "y = Inr rn" "finish_run rn = Inr (res, d2)"
    by (auto simp: ebind_eq_Inr)
  from y(1) rn(1) obtain d1 where d1: "truncated_entry caps d X = Inr d1"
    "truncated_loop caps (start_run d1) = Some (Inr rn)"
    by (auto simp: truncated_steps_def split: sum.splits)
  have "memory_truncated (run_dec (start_run d1)) \<noteq> None"
    using truncated_entry_memory[OF d1(1)] by (simp add: start_run_def)
  from truncated_loop_memory[OF d1(2) this refl] finish_run_dec[OF rn(2)]
  show ?thesis by simp
qed

lemma example_truncated_entry:
  assumes "shape X = [1, T, 2]"
    and "0 \<le> query_dim d" "0 \<le> decoder_rnn_dim d" "0 \<le> encoder_embedding_dim d"
    and "0 \<le> frame_dim d * r d"
  shows "truncated_entry (example_caps v) d X =
     Inr ((case memory_truncated d of
             None \<Rightarrow>
               d\<lparr>memory_truncated := Some (const_tensor [1, nat (frame_dim d * r d)] 0),
                 query := Some (const_tensor [1, nat (query_dim d)] 0),
                 attention_rnn_cell_state := Some (const_tensor [1, nat (query_dim d)] 0),
                 decoder_hidden := Some (const_tensor [1, nat (decoder_rnn_dim d)] 0),
                 decoder_cell := Some (const_tensor [1, nat (decoder_rnn_dim d)] 0),
                 context_vec := Some (const_tensor [1, nat (encoder_embedding_dim d)] 0)\<rparr>
           | Some m \<Rightarrow> d)
          \<lparr>inputs := Some X, processed_inputs := Some X, mask := Some None,
            world := const_tensor [1, T] 0\<rparr>)"
  using assms(2-5)
  by (cases "memory_truncated d")
     (simp_all add: truncated_entry_def get_go_frame_def tsize_def norm_dim_def assms(1)
        zeros_repeat_const example_init_states[OF assms(1)])

lemma example_truncated_decode:
  assumes "example_ready d T" "memory_truncated d = Some m"
    and "length (shape m) = 2" "hd (shape m) = 1"
    and "0 \<le> r d * frame_dim d"
  shows "truncated_decode (example_caps v) d =
     Inr (let out = const_tensor [1, min (nat (out_features (linear_projection d)))
                              (nat (r d * frame_dim d))] v in
          ((out, const_tensor [1, T] 0,
            tsigmoid (const_tensor [1, nat (out_features (snd (stopnet d)))] v),
            if shape out ! 1 = 1 then out\<lparr>shape := [1]\<rparr> else out),
           example_after d T))"
proof -
  from assms(3,4) obtain km where m: "shape m = [1, km]"
    by (auto elim: rank2_shape)
  have "decode (example_caps v) d (const_tensor [Suc 0, 2] 0) =
     Inr ((const_tensor [1, min (nat (out_features (linear_projection d)))
                              (nat (r d * frame_dim d))] v,
           const_tensor [1, T] 0,
           const_tensor [1, nat (out_features (snd (stopnet d)))] v),
          example_after d T)"
    by (rule example_decode[OF assms(1) _ _ assms(5)]) simp_all
  then show ?thesis
    by (simp add: truncated_decode_def prenet_call_def assms(2) m squeeze1_rank2 Let_def)
qed

lemma example_truncated_body:
  assumes "example_ready (run_dec rn) T" "memory_truncated (run_dec rn) = Some m"
    and "length (shape m) = 2" "hd (shape m) = 1"
    and "0 \<le> r (run_dec rn) * frame_dim (run_dec rn)"
    and "out_features (snd (stopnet (run_dec rn))) = 1"
  shows "truncated_body (example_caps v) rn =
     Inr (let W = min (nat (out_features (linear_projection (run_dec rn))))
                      (nat (r (run_dec rn) * frame_dim (run_dec rn)));
              out = const_tensor [1, W] v;
              outp = (if W = 1 then out\<lparr>shape := [1]\<rparr> else out);
              sg = tsigmoid (const_tensor [1, 1] v);
              al = const_tensor [1, T] 0;
              d1 = example_after (run_dec rn) T
          in if 7 / 10 < sigmoid v then TBreak (appended rn d1 outp sg al)
             else if int (length (run_outputs rn)) + 1 = max_decoder_steps (run_dec rn)
               then TBreak (appended rn (d1\<lparr>stdout := stdout (run_dec rn) @ [max_steps_notice]\<rparr>)
                              outp sg al)
             else TContinue ((appended rn (d1\<lparr>memory_truncated := Some out\<rparr>) outp sg al)
                               \<lparr>run_t := run_t rn + 1\<rparr>))"
  by (simp add: truncated_body_def example_truncated_decode[OF assms(1-5)] truncated_gate_def
      assms(6) example_gate Let_def)

lemma parse_outputs_single:
  assumes "shape al = [1, L]" "shape st = [1, 1]" "shape out = [1, 2]" "frame_dim d = 1"
  shows "\<exists>res. parse_outputs d [out] [st] [al] = Inr res"
  using assms
  by (simp add: parse_outputs_def stack_def transpose01_def tsize_def norm_dim_def view_def
      transpose12_def Let_def)


lemma example_truncated_first_entry:
  "\<exists>d1. truncated_entry (example_caps v) (example_decoder 1 2) (const_tensor [1, 3, 2] 0) = Inr d1
     \<and> example_ready d1 3 \<and> memory_truncated d1 = Some (const_tensor [1, 2] 0)
     \<and> r d1 = 2 \<and> frame_dim d1 = 1
     \<and> out_features (linear_projection d1) = 2 \<and> out_features (snd (stopnet d1)) = 1
     \<and> query_dim d1 = 1024 \<and> decoder_rnn_dim d1 = 1024 \<and> encoder_embedding_dim d1 = 2"
  using example_truncated_entry[of "const_tensor [1, 3, 2] 0" 3 "example_decoder 1 2" v]
  by (simp add: example_ready_def)

lemma example_truncated_first_run:
  assumes "truncated_entry (example_caps 2) (example_decoder 1 2) (const_tensor [1, 3, 2] 0)
      = Inr d1"
  shows "\<exists>res. inference_truncated (example_caps 2) (example_decoder 1 2)
       (const_tensor [1, 3, 2] 0) = Some (Inr (res, example_after d1 3))"
proof -
  from example_truncated_first_entry[of 2] assms have p:
    "example_ready d1 3" "memory_truncated d1 = Some (const_tensor [1, 2] 0)"
    "r d1 = 2" "frame_dim d1 = 1"
    "out_features (linear_projection d1) = 2" "out_features (snd (stopnet d1)) = 1"
    by auto
  let ?rn = "appended (start_run d1) (example_after d1 3) (const_tensor [1, 2] 2)
      (tsigmoid (const_tensor [1, 1] 2)) (const_tensor [1, 3] 0)"
  have body: "truncated_body (example_caps 2) (start_run d1) = Inr (TBreak ?rn)"
    using example_truncated_body[of "start_run d1" 3 "const_tensor [1, 2] 0" 2] p sigmoid_2_gt'
    by (simp add: start_run_def Let_def)
  have loop: "truncated_loop (example_caps 2) (start_run d1) = Some (Inr ?rn)"
    by (subst truncated_loop.simps) (simp add: body)
  have steps: "truncated_steps (example_caps 2) (example_decoder 1 2) (const_tensor [1, 3, 2] 0)
      = Some (Inr ?rn)"
    using assms loop by (simp add: truncated_steps_def)
  have "\<exists>res. parse_outputs (example_after d1 3) [const_tensor [1, 2] 2]
      [tsigmoid (const_tensor [1, 1] 2)] [const_tensor [1, 3] 0] = Inr res"
    by (rule parse_outputs_single) (simp_all add: p tsigmoid_def)
  then obtain res where "finish_run ?rn = Inr (res, example_after d1 3)"
    by (auto simp: finish_run_def appended_def start_run_def split: prod.splits)
  with steps have "inference_truncated (example_caps 2) (example_decoder 1 2)
       (const_tensor [1, 3, 2] 0) = Some (Inr (res, example_after d1 3))"
    by (simp add: inference_truncated_def)
  then show ?thesis by blast
qed


text \<open>
  Claim C8. The entry of \<^verbatim>\<open>inference_truncated\<close>, up to the loop. When the decoder has no
  \<^verbatim>\<open>memory_truncated\<close> yet, the entry sets \<open>query\<close>, \<open>attention_rnn_cell_state\<close>,
  \<open>decoder_hidden\<close>, \<open>decoder_cell\<close> and \<open>context\<close> to zeros, one row per batch element, and
  sets \<^verbatim>\<open>memory_truncated\<close> to the go frame. When the decoder has a \<^verbatim>\<open>memory_truncated\<close>,
  the entry leaves these five fields and the buffer as they are. A call that returns
  leaves a \<^verbatim>\<open>memory_truncated\<close> behind, so the entry of any later call keeps the five
  fields the earlier call ended with.
\<close>

theorem truncated_state_reset_only_without_buffer:
  "(memory_truncated d = None \<and> truncated_entry caps d X = Inr d1 \<longrightarrow>
      (\<exists>B. tsize X 0 = Inr B
         \<and> query d1 = Some \<lparr>shape = [B, nat (query_dim d)],
                              elems = replicate (B * nat (query_dim d)) 0\<rparr>
         \<and> attention_rnn_cell_state d1 = Some \<lparr>shape = [B, nat (query_dim d)],
                              elems = replicate (B * nat (query_dim d)) 0\<rparr>
         \<and> decoder_hidden d1 = Some \<lparr>shape = [B, nat (decoder_rnn_dim d)],
                              elems = replicate (B * nat (decoder_rnn_dim d)) 0\<rparr>
         \<and> decoder_cell d1 = Some \<lparr>shape = [B, nat (decoder_rnn_dim d)],
                              elems = replicate (B * nat (decoder_rnn_dim d)) 0\<rparr>
         \<and> context_vec d1 = Some \<lparr>shape = [B, nat (encoder_embedding_dim d)],
                              elems = replicate (B * nat (encoder_embedding_dim d)) 0\<rparr>
         \<and> memory_truncated d1 = Some \<lparr>shape = [B, nat (frame_dim d * r d)],
                              elems = replicate (B * nat (frame_dim d * r d)) 0\<rparr>))
   \<and> (memory_truncated d \<noteq> None \<and> truncated_entry caps d X = Inr d1 \<longrightarrow>
        query d1 = query d
      \<and> attention_rnn_cell_state d1 = attention_rnn_cell_state d
      \<and> decoder_hidden d1 = decoder_hidden d
      \<and> decoder_cell d1 = decoder_cell d
      \<and> context_vec d1 = context_vec d
      \<and> memory_truncated d1 = memory_truncated d)
   \<and> (inference_truncated caps d X = Some (Inr (res, d2)) \<longrightarrow> memory_truncated d2 \<noteq> None)
   \<and> (inference_truncated caps d X = Some (Inr (res, d2)) \<and> truncated_entry caps d2 X' = Inr d3
       \<longrightarrow> query d3 = query d2
         \<and> attention_rnn_cell_state d3 = attention_rnn_cell_state d2
         \<and> decoder_hidden d3 = decoder_hidden d2
         \<and> decoder_cell d3 = decoder_cell d2
         \<and> context_vec d3 = context_vec d2)"
proof -
  have keep: "query d1 = query d
      \<and> attention_rnn_cell_state d1 = attention_rnn_cell_state d
      \<and> decoder_hidden d1 = decoder_hidden d
      \<and> decoder_cell d1 = decoder_cell d
      \<and> context_vec d1 = context_vec d
      \<and> memory_truncated d1 = memory_truncated d"
    if "memory_truncated d \<noteq> None" "truncated_entry caps d X = Inr d1" for d d1 X
  proof -
    from that obtain m d0 w where m: "memory_truncated d = Some m"
      and i: "init_states caps d X None True = Inr d0" and d1: "d1 = d0\<lparr>world := w\<rparr>"
      by (auto simp: truncated_entry_def ebind_eq_Inr)
    show ?thesis
      by (subst (1 2 3 4 5 6) d1, subst (1 2 3 4 5 6) init_states_keep[OF i]) simp
  qed
  have reset: "\<exists>B. tsize X 0 = Inr B
         \<and> query d1 = Some \<lparr>shape = [B, nat (query_dim d)],
                              elems = replicate (B * nat (query_dim d)) 0\<rparr>
         \<and> attention_rnn_cell_state d1 = Some \<lparr>shape = [B, nat (query_dim d)],
                              elems = replicate (B * nat (query_dim d)) 0\<rparr>
         \<and> decoder_hidden d1 = Some \<lparr>shape = [B, nat (decoder_rnn_dim d)],
                              elems = replicate (B * nat (decoder_rnn_dim d)) 0\<rparr>
         \<and> decoder_cell d1 = Some \<lparr>shape = [B, nat (decoder_rnn_dim d)],
                              elems = replicate (B * nat (decoder_rnn_dim d)) 0\<rparr>
         \<and> context_vec d1 = Some \<lparr>shape = [B, nat (encoder_embedding_dim d)],
                              elems = replicate (B * nat (encoder_embedding_dim d)) 0\<rparr>
         \<and> memory_truncated d1 = Some \<lparr>shape = [B, nat (frame_dim d * r d)],
                              elems = replicate (B * nat (frame_dim d * r d)) 0\<rparr>"
    if n: "memory_truncated d = None" and e: "truncated_entry caps d X = Inr d1"
  proof -
    from n e obtain g d0 w where g: "get_go_frame d X = Inr g"
      and i: "init_states caps (d\<lparr>memory_truncated := Some g\<rparr>) X None False = Inr d0"
      and d1: "d1 = d0\<lparr>world := w\<rparr>"
      by (auto simp: truncated_entry_def ebind_eq_Inr)
    from get_go_frame_Inr[OF g] obtain B where B: "tsize X 0 = Inr B"
      "g = \<lparr>shape = [B, nat (frame_dim d * r d)],
            elems = replicate (B * nat (frame_dim d * r d)) 0\<rparr>" by blast
    from init_states_reset[OF i] B(1) have d0: "d0 = d
       \<lparr>memory_truncated := Some g,
        query := Some \<lparr>shape = [B, nat (query_dim d)],
                              elems = replicate (B * nat (query_dim d)) 0\<rparr>,
        attention_rnn_cell_state := Some \<lparr>shape = [B, nat (query_dim d)],
                              elems = replicate (B * nat (query_dim d)) 0\<rparr>,
        decoder_hidden := Some \<lparr>shape = [B, nat (decoder_rnn_dim d)],
                              elems = replicate (B * nat (decoder_rnn_dim d)) 0\<rparr>,
        decoder_cell := Some \<lparr>shape = [B, nat (decoder_rnn_dim d)],
                              elems = replicate (B * nat (decoder_rnn_dim d)) 0\<rparr>,
        context_vec := Some \<lparr>shape = [B, nat (encoder_embedding_dim d)],
                              elems = replicate (B * nat (encoder_embedding_dim d)) 0\<rparr>,
        inputs := inputs d0, processed_inputs := processed_inputs d0, mask := mask d0,
        world := world d0\<rparr>"
      by auto
    show ?thesis
      using B by (subst (1 2 3 4 5 6) d1, subst (1 2 3 4 5 6) d0) simp
  qed
  have later: "memory_truncated d2 \<noteq> None"
    if "inference_truncated caps d X = Some (Inr (res, d2))"
    using that by (rule inference_truncated_memory)
  from keep reset later show ?thesis
    by blast
qed
theorem truncated_state_reset_only_without_buffer_witness:
  "\<exists>d1 res d2 d3.
       truncated_entry (example_caps 2) (example_decoder 1 2) (const_tensor [1, 3, 2] 0) = Inr d1
     \<and> map_option shape (query d1) = Some [1, 1024]
     \<and> inference_truncated (example_caps 2) (example_decoder 1 2) (const_tensor [1, 3, 2] 0)
         = Some (Inr (res, d2))
     \<and> map_option shape (query d2) = Some [1, 1]
     \<and> truncated_entry (example_caps 2) d2 (const_tensor [1, 3, 2] 0) = Inr d3
     \<and> query d3 = query d2 \<and> memory_truncated d3 \<noteq> None"
proof -
  let ?X = "const_tensor [1, 3, 2] 0 :: real tensor"
  let ?d = "example_decoder 1 2"
  from example_truncated_first_entry[of 2] obtain d1 where
    e1: "truncated_entry (example_caps 2) ?d ?X = Inr d1"
    and dims: "query_dim d1 = 1024" "decoder_rnn_dim d1 = 1024" "encoder_embedding_dim d1 = 2"
      "r d1 = 2" "frame_dim d1 = 1"
    by blast
  from example_truncated_first_run[OF e1] obtain res where
    run: "inference_truncated (example_caps 2) ?d ?X = Some (Inr (res, example_after d1 3))"
    by blast
  let ?d2 = "example_after d1 3"
  have q2: "map_option shape (query ?d2) = Some [1, 1]"
    by (simp add: example_after_def)
  from example_truncated_entry[of ?X 3 ?d2 2] dims obtain d3 where
    e3: "truncated_entry (example_caps 2) ?d2 ?X = Inr d3"
    by (simp add: example_after_def)
  note first = truncated_state_reset_only_without_buffer
    [where d = ?d and caps = "example_caps 2" and X = ?X and ?d1.0 = d1 and res = res
       and ?d2.0 = ?d2 and X' = ?X and ?d3.0 = d3]
  note second = truncated_state_reset_only_without_buffer
    [where d = ?d2 and caps = "example_caps 2" and X = ?X and ?d1.0 = d3 and res = res
       and ?d2.0 = ?d2 and X' = ?X and ?d3.0 = d3]
  have sz: "tsize ?X 0 = Inr 1"
    by (simp add: tsize_def norm_dim_def)
  from first e1 sz have q1: "map_option shape (query d1) = Some [1, 1024]"
    by auto
  from first run e3 have carried: "query d3 = query ?d2" and buf: "memory_truncated ?d2 \<noteq> None"
    by blast+
  from second buf e3 have "memory_truncated d3 = memory_truncated ?d2"
    by blast
  with buf have "memory_truncated d3 \<noteq> None" by simp
  with e1 q1 run q2 e3 carried show ?thesis by blast
qed


end
